theory Spec2Isabelle
  imports Complex_Main
begin

chapter \<open>The detection session supervisor\<close>

text \<open>
  A model of \<open>python-backend/detector.py\<close> (the \<open>ObjectDetector\<close> singleton: start and
  stop, the detection loop with its capture handling, the notification throttle) and of
  the session state of \<open>python-backend/app.py\<close> (the \<open>/start\<close> and \<open>/stop\<close> handlers, the
  frame slot and the monitoring thread). Mutation is explicit state passing; everything
  the outside world decides (clocks, the camera, the model, thread creation) is an
  argument. Clock readings and confidences are reals. Threads interleave at the
  granularity of one handler call, one monitor pass or one loop iteration.
\<close>

section \<open>Python values used by the backend\<close>

text \<open>
  Strings are byte lists. \<open>str.lower\<close> is modelled on the ASCII letters, which is exact
  for the only comparison the backend makes with it (against \<open>'person'\<close>): no
  non-ASCII code point lower-cases to one of the letters p, e, r, s, o, n.
\<close>

definition py_lower_char :: "char \<Rightarrow> char" where
  "py_lower_char c =
     (case map_of (zip ''ABCDEFGHIJKLMNOPQRSTUVWXYZ'' ''abcdefghijklmnopqrstuvwxyz'') c of
        Some l \<Rightarrow> l
      | None \<Rightarrow> c)"

definition py_lower :: "string \<Rightarrow> string" where
  "py_lower s = map py_lower_char s"

definition startswith :: "string \<Rightarrow> string \<Rightarrow> bool" where
  "startswith s p = (take (length p) s = p)"

text \<open>Truthiness of an optional string: \<open>None\<close> and \<open>''\<close> are falsy.\<close>

definition truthy :: "string option \<Rightarrow> bool" where
  "truthy v = (case v of None \<Rightarrow> False | Some s \<Rightarrow> s \<noteq> [])"

text \<open>\<open>pat in s\<close> for strings.\<close>

fun py_contains :: "string \<Rightarrow> string \<Rightarrow> bool" where
  "py_contains pat [] = (pat = [])"
| "py_contains pat (c # cs) = (startswith (c # cs) pat \<or> py_contains pat cs)"

definition lstrip_slash :: "string \<Rightarrow> string" where
  "lstrip_slash s = dropWhile (\<lambda>c. c = CHR ''/'') s"

definition rstrip_slash :: "string \<Rightarrow> string" where
  "rstrip_slash s = rev (dropWhile (\<lambda>c. c = CHR ''/'') (rev s))"

definition digit_char :: "nat \<Rightarrow> char" where
  "digit_char n = ''0123456789'' ! (n mod 10)"

fun str_nat :: "nat \<Rightarrow> string" where
  "str_nat n = (if n < 10 then [digit_char n] else str_nat (n div 10) @ [digit_char (n mod 10)])"

declare str_nat.simps [simp del]

text \<open>
  The format spec \<open>.2%\<close>: the value times 100, in fixed notation with two decimals
  (ties to even), followed by a percent sign. Confidences are modelled as reals; the
  binary rounding of a double is not.
\<close>

definition round_half_even :: "real \<Rightarrow> int" where
  "round_half_even x =
     (let f = \<lfloor>x\<rfloor>; r = x - of_int f
      in if r < 1 / 2 then f else if 1 / 2 < r then f + 1 else if even f then f else f + 1)"

definition format_percent2 :: "real \<Rightarrow> string" where
  "format_percent2 x =
     (let n = round_half_even (x * 100 * 100); a = nat \<bar>n\<bar>
      in (if n < 0 then ''-'' else []) @ str_nat (a div 100) @ ''.''
           @ [digit_char ((a mod 100) div 10), digit_char (a mod 10)] @ ''%'')"

section \<open>Configuration, settings and the detector object\<close>

text \<open>The values of \<open>config.py\<close> that the modelled functions read.\<close>

record config =
  DETECTION_INTERVAL :: real
  NTFY_BASE_URL :: string

text \<open>
  The settings dictionary of a start request. An absent key is \<open>None\<close>; the fields carry
  the types the HTTP layer's callers send (strings and booleans).
\<close>

record settings =
  ipCameraUrl :: "string option"
  ipCameraPort :: "string option"
  ntfyTopic :: "string option"
  ntfyPriority :: "string option"
  enablePersonDetection :: "bool option"
  userId :: "string option"
  supabaseUrl :: "string option"
  supabaseKey :: "string option"
  enableLogging :: "bool option"

text \<open>What \<open>cv2.VideoCapture\<close> is opened on: a webcam index or a stream URL.\<close>

datatype stream_target = Webcam int | Stream string

text \<open>A \<open>cv2.VideoCapture\<close> object: its source and what \<open>isOpened()\<close> answers.\<close>

record capture =
  source :: "stream_target option"
  opened :: bool

record detector =
  model_loaded :: bool
  is_running :: bool
  stream_url :: "stream_target option"
  ntfy_topic :: "string option"
  ntfy_priority :: string
  last_notification_time :: "string \<rightharpoonup> real"
  notification_cooldown :: real
  cap :: "capture option"
  user_id :: "string option"
  supabase_url :: "string option"
  supabase_key :: "string option"
  enable_logging :: bool
  frame_callback :: bool
  enable_person_detection :: bool
  last_heartbeat :: real
  heartbeat_interval :: real
  last_callback_time :: "int option"

text \<open>\<open>ObjectDetector.__init__\<close>.\<close>

definition init_detector :: detector where
  "init_detector =
     \<lparr> model_loaded = False, is_running = False, stream_url = None, ntfy_topic = None,
       ntfy_priority = ''default'', last_notification_time = Map.empty,
       notification_cooldown = 60, cap = None, user_id = None, supabase_url = None,
       supabase_key = None, enable_logging = False, frame_callback = False,
       enable_person_detection = True, last_heartbeat = 0, heartbeat_interval = 5,
       last_callback_time = None \<rparr>"

section \<open>Notification throttling\<close>

record detection =
  object_class :: string
  confidence :: real
  box :: "real list"

text \<open>The outgoing calls \<open>process_detections\<close> makes, in order.\<close>

datatype call = SendNotification string real bool | LogDetection string real

record http_post =
  post_url :: string
  post_title :: string
  post_priority :: string
  post_tags :: string
  post_body :: string

text \<open>
  \<open>send_notification\<close>: the request posted to the notification service, or \<open>None\<close>
  when building it raises (a topic that is \<open>None\<close>; the exception is caught and
  logged). \<open>stamp\<close> is the wall clock rendered as \<open>%H:%M:%S\<close>.
\<close>

definition send_notification ::
  "config \<Rightarrow> string \<Rightarrow> detector \<Rightarrow> string \<Rightarrow> real \<Rightarrow> bool \<Rightarrow> http_post option" where
  "send_notification cfg stamp d cls conf is_priority =
     (let person = (py_lower cls = ''person'');
          title = (if person then ''Person Detected!'' else ''Object Detected: '' @ cls);
          message = (if person
                     then ''A person was detected with '' @ format_percent2 conf @ '' confidence''
                     else ''Detected '' @ cls @ '' with '' @ format_percent2 conf @ '' confidence'');
          priority = (if person then ''urgent''
                      else if \<not> is_priority then ntfy_priority d else ''high'');
          tags = (if person then ''warning,eyes,bell'' else ''warning'');
          body = ''['' @ stamp @ ''] '' @ message
      in case ntfy_topic d of
           None \<Rightarrow> None
         | Some topic \<Rightarrow>
             Some \<lparr> post_url =
                      (if startswith topic ''http://'' \<or> startswith topic ''https://''
                       then topic
                       else rstrip_slash (NTFY_BASE_URL cfg) @ ''/'' @ lstrip_slash topic),
                    post_title = title, post_priority = priority, post_tags = tags,
                    post_body = body \<rparr>)"

definition logging_on :: "detector \<Rightarrow> bool" where
  "logging_on d = (enable_logging d \<and> truthy (supabase_url d) \<and> truthy (supabase_key d))"

text \<open>
  The cooldown test of both branches:
  \<open>object_class not in table or current_time - table.get(object_class, 0) > cooldown\<close>.
\<close>

definition cooldown_over :: "detector \<Rightarrow> real \<Rightarrow> string \<Rightarrow> bool" where
  "cooldown_over d current_time cls =
     (last_notification_time d cls = None \<or>
      current_time - (case last_notification_time d cls of None \<Rightarrow> 0 | Some t \<Rightarrow> t)
        > notification_cooldown d)"

text \<open>The body of the \<open>for detection in detections\<close> loop.\<close>

definition process_detection :: "real \<Rightarrow> detector \<Rightarrow> detection \<Rightarrow> detector \<times> call list" where
  "process_detection current_time d x =
     (let cls = object_class x; conf = confidence x in
      if py_lower cls = ''person'' \<and> enable_person_detection d then
        (if truthy (ntfy_topic d) \<and> cooldown_over d current_time cls
         then (d\<lparr>last_notification_time := (last_notification_time d)(cls \<mapsto> current_time)\<rparr>,
               SendNotification cls conf True
                 # (if logging_on d then [LogDetection cls conf] else []))
         else (d, []))
      else if cooldown_over d current_time cls then
        ((if truthy (ntfy_topic d)
          then d\<lparr>last_notification_time := (last_notification_time d)(cls \<mapsto> current_time)\<rparr>
          else d),
         (if truthy (ntfy_topic d) then [SendNotification cls conf False] else [])
           @ (if logging_on d then [LogDetection cls conf] else []))
      else (d, []))"

fun process_detections :: "real \<Rightarrow> detection list \<Rightarrow> detector \<Rightarrow> detector \<times> call list" where
  "process_detections current_time [] d = (d, [])"
| "process_detections current_time (x # xs) d =
     (case process_detection current_time d x of
        (d1, c1) \<Rightarrow>
          (case process_detections current_time xs d1 of (d2, c2) \<Rightarrow> (d2, c1 @ c2)))"

definition is_notify :: "call \<Rightarrow> bool" where
  "is_notify c = (case c of SendNotification _ _ _ \<Rightarrow> True | LogDetection _ _ \<Rightarrow> False)"

section \<open>Heartbeat\<close>

text \<open>Every reading of \<open>time.time()\<close> is an argument of the function that takes it.\<close>

definition heartbeat :: "real \<Rightarrow> detector \<Rightarrow> detector" where
  "heartbeat now d = d\<lparr>last_heartbeat := now\<rparr>"

definition get_last_heartbeat_age :: "real \<Rightarrow> detector \<Rightarrow> real" where
  "get_last_heartbeat_age now d = now - last_heartbeat d"

definition is_heartbeat_active :: "real \<Rightarrow> detector \<Rightarrow> bool" where
  "is_heartbeat_active now d =
     (let max_age = heartbeat_interval d * 3; age = get_last_heartbeat_age now d
      in age < max_age)"

definition set_frame_callback :: "detector \<Rightarrow> detector" where
  "set_frame_callback d = d\<lparr>frame_callback := True\<rparr>"

section \<open>Parsing the stream locator\<close>

text \<open>\<open>s.replace(pat, '')\<close>: every occurrence of \<open>pat\<close>, left to right, is deleted.\<close>

function remove_all :: "string \<Rightarrow> string \<Rightarrow> string" where
  "remove_all pat [] = []"
| "remove_all pat (c # cs) =
     (if pat \<noteq> [] \<and> startswith (c # cs) pat
      then remove_all pat (drop (length pat) (c # cs))
      else c # remove_all pat cs)"
  by pat_completeness auto
termination
  by (relation "measure (\<lambda>(pat, s). length s)") auto

text \<open>
  \<open>int(s)\<close> on a string: surrounding whitespace is dropped, then an optional sign and
  decimal digits, where single underscores may separate digits. \<open>None\<close> stands for
  \<open>ValueError\<close>. The model is exact on ASCII strings that stay below the interpreter's
  limit on the number of digits; Unicode whitespace and Unicode decimal digits, which
  \<open>int\<close> also accepts, are outside it.
\<close>

definition ascii_string :: "string \<Rightarrow> bool" where
  "ascii_string s = list_all (\<lambda>c. (of_char c :: nat) < 128) s"

definition py_isspace :: "char \<Rightarrow> bool" where
  "py_isspace c = (c \<in> set [CHR '' '', CHR 0x09, CHR 0x0A, CHR 0x0B, CHR 0x0C, CHR 0x0D,
                            CHR 0x1C, CHR 0x1D, CHR 0x1E, CHR 0x1F])"

definition py_strip :: "string \<Rightarrow> string" where
  "py_strip s = rev (dropWhile py_isspace (rev (dropWhile py_isspace s)))"

definition digit_value :: "char \<Rightarrow> int option" where
  "digit_value c = map_of (zip ''0123456789'' [0, 1, 2, 3, 4, 5, 6, 7, 8, 9]) c"

fun parse_digits :: "int \<Rightarrow> string \<Rightarrow> int option" where
  "parse_digits acc [] = Some acc"
| "parse_digits acc (c # cs) =
     (case digit_value c of
        Some v \<Rightarrow> parse_digits (acc * 10 + v) cs
      | None \<Rightarrow>
          (if c = CHR ''_'' then
             (case cs of
                [] \<Rightarrow> None
              | c' # cs' \<Rightarrow>
                  (case digit_value c' of
                     Some v \<Rightarrow> parse_digits (acc * 10 + v) cs'
                   | None \<Rightarrow> None))
           else None))"

definition py_int :: "string \<Rightarrow> int option" where
  "py_int str =
     (let s = py_strip str;
          negative = (s \<noteq> [] \<and> hd s = CHR ''-'');
          body = (if s \<noteq> [] \<and> (hd s = CHR ''-'' \<or> hd s = CHR ''+'') then tl s else s)
      in case body of
           [] \<Rightarrow> None
         | c # cs \<Rightarrow>
             (case digit_value c of
                None \<Rightarrow> None
              | Some v \<Rightarrow> map_option (\<lambda>n. if negative then - n else n) (parse_digits v cs)))"

text \<open>
  Lines 83-103 of \<open>start_detection\<close> (the same block is repeated in the camera test
  endpoint): from the camera URL and port to what the capture is opened on.
\<close>

definition resolve_stream :: "string \<Rightarrow> string \<Rightarrow> stream_target" where
  "resolve_stream camera_url camera_port =
     (if startswith camera_url ''webcam://'' then
        (let rest = remove_all ''webcam://'' camera_url in
         if rest = [] then Webcam 0
         else (case py_int rest of Some i \<Rightarrow> Webcam i | None \<Rightarrow> Webcam 0))
      else if startswith camera_url ''rtmp://'' \<or> startswith camera_url ''srt://'' then
        Stream (if camera_port \<noteq> [] \<and> CHR '':'' \<notin> set camera_url
                then camera_url @ '':'' @ camera_port else camera_url)
      else if \<not> (startswith camera_url ''http://'' \<or> startswith camera_url ''https://'') then
        Stream (if camera_port \<noteq> []
                then (''http://'' @ camera_url) @ '':'' @ camera_port
                else ''http://'' @ camera_url)
      else
        Stream (if camera_port \<noteq> [] \<and> CHR '':'' \<notin> set camera_url
                then camera_url @ '':'' @ camera_port else camera_url))"

section \<open>Starting and stopping the detector\<close>

text \<open>
  What the outside world answers during one call of \<open>start_detection\<close>: the clock, whether
  the model file loads, what \<open>cv2.VideoCapture\<close> does, and whether the worker thread
  can be started.
\<close>

datatype open_outcome = Opened | NotOpened | OpenRaised string

datatype error = RuntimeError

record start_env =
  start_time :: real
  load_ok :: bool
  video_open :: open_outcome
  thread_ok :: bool

definition get_or :: "'a option \<Rightarrow> 'a \<Rightarrow> 'a" where
  "get_or v dflt = (case v of None \<Rightarrow> dflt | Some x \<Rightarrow> x)"

text \<open>
  \<open>start_detection\<close> returns its \<open>(success, message)\<close> pair, or the exception that
  escapes it, together with the detector as it leaves it. A worker thread runs
  \<open>detection_loop\<close> exactly when the result is a success.
\<close>

definition start_detection ::
  "start_env \<Rightarrow> settings \<Rightarrow> detector \<Rightarrow> (error + bool \<times> string) \<times> detector" where
  "start_detection env st d =
     (if is_running d then (Inr (False, ''Detection is already running''), d)
      else
        let d1 = heartbeat (start_time env) d;
            camera_url = get_or (ipCameraUrl st) [];
            camera_port = get_or (ipCameraPort st) [];
            d2 = d1\<lparr> stream_url := Some (resolve_stream camera_url camera_port),
                     ntfy_topic := ntfyTopic st,
                     ntfy_priority := get_or (ntfyPriority st) ''default'',
                     enable_person_detection := get_or (enablePersonDetection st) True,
                     user_id := Some (get_or (userId st) ''unknown-user''),
                     supabase_url := supabaseUrl st,
                     supabase_key := supabaseKey st,
                     enable_logging := get_or (enableLogging st) False \<rparr>
        in if \<not> model_loaded d2 \<and> \<not> load_ok env
           then (Inr (False, ''Failed to load detection model''), d2)
           else
             let d3 = d2\<lparr>model_loaded := True\<rparr> in
             (case video_open env of
                OpenRaised msg \<Rightarrow> (Inr (False, ''Error opening video stream: '' @ msg), d3)
              | NotOpened \<Rightarrow>
                  (Inr (False, ''Failed to open video stream''),
                   d3\<lparr>cap := Some \<lparr>source = stream_url d3, opened = False\<rparr>\<rparr>)
              | Opened \<Rightarrow>
                  (let d4 = d3\<lparr>cap := Some \<lparr>source = stream_url d3, opened = True\<rparr>,
                                is_running := True\<rparr>
                   in if thread_ok env
                      then (Inr (True, ''Detection started successfully''), d4)
                      else (Inl RuntimeError, d4))))"

definition stop_detection :: "detector \<Rightarrow> (bool \<times> string) \<times> detector" where
  "stop_detection d =
     (if \<not> is_running d then ((False, ''Detection is not running''), d)
      else ((True, ''Detection stopped successfully''), d\<lparr>is_running := False, cap := None\<rparr>))"

section \<open>The detection loop\<close>

text \<open>
  A frame is identified by a number; the published frame is the frame together with the
  boxes drawn on it (pixels and scaling are not modelled).
\<close>

datatype frame = Frame nat

type_synonym annotated = "frame \<times> detection list"

text \<open>The local variables of \<open>detection_loop\<close>.\<close>

record loop_vars =
  last_detection_time :: real
  consecutive_errors :: nat
  reconnect_attempts :: nat

definition init_loop_vars :: loop_vars where
  "init_loop_vars = \<lparr>last_detection_time = 0, consecutive_errors = 0, reconnect_attempts = 0\<rparr>"

definition max_consecutive_errors :: nat where
  "max_consecutive_errors = 10"

definition max_reconnect_attempts :: nat where
  "max_reconnect_attempts = 5"

text \<open>
  What the outside world answers during one iteration: the clock at the top, what a
  reopening of the capture does, what \<open>cap.read()\<close> does (the exception, or \<open>ret\<close>, the
  frame and whether the call took more than 10 seconds), what the model returns, the
  millisecond clock at the callback, and the clock inside \<open>process_detections\<close>.
\<close>

datatype read_outcome = ReadRaised | ReadReturned bool "frame option" bool

datatype infer_outcome = InferRaised | Inferred "detection list"

record iter_env =
  current_time :: real
  reopen :: open_outcome
  frame_read :: read_outcome
  inference :: infer_outcome
  current_ms :: int
  process_time :: real

datatype loop_event =
    Reconnect
  | ForcedReconnect
  | StuckRead
  | Published annotated
  | Called call

datatype loop_ctl = Continue | Break

text \<open>The frame a read delivers, if it counts as a success (line 226).\<close>

definition good_frame :: "read_outcome \<Rightarrow> frame option" where
  "good_frame r =
     (case r of
        ReadRaised \<Rightarrow> None
      | ReadReturned ret fr slow \<Rightarrow> (if ret then fr else None))"

definition read_stuck :: "read_outcome \<Rightarrow> bool" where
  "read_stuck r = (case r of ReadRaised \<Rightarrow> False | ReadReturned ret fr slow \<Rightarrow> slow)"

definition capture_open :: "detector \<Rightarrow> bool" where
  "capture_open d = (case cap d of None \<Rightarrow> False | Some c \<Rightarrow> opened c)"

text \<open>\<open>self.cap.release()\<close> when there is a capture; the object stays in \<open>cap\<close>.\<close>

definition release_cap :: "detector \<Rightarrow> detector" where
  "release_cap d = d\<lparr>cap := map_option (\<lambda>c. c\<lparr>opened := False\<rparr>) (cap d)\<rparr>"

text \<open>\<open>self.cap = cv2.VideoCapture(self.stream_url)\<close> after the release.\<close>

definition reopen_cap :: "open_outcome \<Rightarrow> detector \<Rightarrow> detector" where
  "reopen_cap r d =
     (case r of
        OpenRaised msg \<Rightarrow> release_cap d
      | NotOpened \<Rightarrow> d\<lparr>cap := Some \<lparr>source = stream_url d, opened = False\<rparr>\<rparr>
      | Opened \<Rightarrow> d\<lparr>cap := Some \<lparr>source = stream_url d, opened = True\<rparr>\<rparr>)"

text \<open>Lines 288-314: hand the frame to the callback, then process the detections.\<close>

definition publish_and_process ::
  "iter_env \<Rightarrow> frame \<Rightarrow> detection list \<Rightarrow> detector \<times> annotated option
     \<Rightarrow> (detector \<times> annotated option) \<times> loop_event list" where
  "publish_and_process env fr dets s =
     (case s of (d, slot) \<Rightarrow>
        let due = (case last_callback_time d of
                     None \<Rightarrow> True
                   | Some t \<Rightarrow> current_ms env - t \<ge> 33);
            shown = (frame_callback d \<and> due);
            d1 = (if shown then d\<lparr>last_callback_time := Some (current_ms env)\<rparr> else d);
            slot1 = (if shown then Some (fr, dets) else slot);
            ev1 = (if shown then [Published (fr, dets)] else [])
        in if dets = [] then ((d1, slot1), ev1)
           else (case process_detections (process_time env) dets d1 of
                   (d2, calls) \<Rightarrow> ((d2, slot1), ev1 @ map Called calls)))"

text \<open>One pass through the body of \<open>while self.is_running\<close>.\<close>

definition detection_iteration ::
  "config \<Rightarrow> iter_env \<Rightarrow> detector \<times> loop_vars \<times> annotated option
     \<Rightarrow> (detector \<times> loop_vars \<times> annotated option) \<times> loop_ctl \<times> loop_event list" where
  "detection_iteration cfg env s =
     (case s of (d, lv, slot) \<Rightarrow>
        if current_time env - last_detection_time lv < DETECTION_INTERVAL cfg
        then ((d, lv, slot), Continue, [])
        else if \<not> capture_open d then
          (case reopen env of
             OpenRaised msg \<Rightarrow> ((release_cap d, lv, slot), Continue, [Reconnect])
           | NotOpened \<Rightarrow>
               (let lv1 = lv\<lparr>reconnect_attempts := reconnect_attempts lv + 1\<rparr>
                in ((reopen_cap NotOpened d, lv1, slot),
                    (if reconnect_attempts lv1 \<ge> max_reconnect_attempts then Break else Continue),
                    [Reconnect]))
           | Opened \<Rightarrow>
               ((reopen_cap Opened d, lv\<lparr>reconnect_attempts := 0\<rparr>, slot), Continue, [Reconnect]))
        else if read_stuck (frame_read env) then
          ((d\<lparr>cap := None\<rparr>, lv, slot), Continue, [StuckRead])
        else
          (case good_frame (frame_read env) of
             None \<Rightarrow>
               (if consecutive_errors lv + 1 \<ge> max_consecutive_errors
                then ((reopen_cap (reopen env) d, lv\<lparr>consecutive_errors := 0\<rparr>, slot),
                      Continue, [ForcedReconnect])
                else ((d, lv\<lparr>consecutive_errors := consecutive_errors lv + 1\<rparr>, slot),
                      Continue, []))
           | Some fr \<Rightarrow>
               (let lv1 = lv\<lparr>consecutive_errors := 0, last_detection_time := current_time env\<rparr>
                in case inference env of
                     InferRaised \<Rightarrow> ((d, lv1, slot), Continue, [])
                   | Inferred dets \<Rightarrow>
                       (case publish_and_process env fr dets (d, slot) of
                          ((d1, slot1), evs) \<Rightarrow> ((d1, lv1, slot1), Continue, evs)))))"

text \<open>Lines 324-333: the cleanup when the loop ends.\<close>

definition loop_cleanup :: "detector \<Rightarrow> detector" where
  "loop_cleanup d = d\<lparr>cap := None\<rparr>"

text \<open>
  The \<open>while\<close> loop on a finite run of outside answers, one per iteration. The result
  says whether the loop has ended (and cleaned up) within the run.
\<close>

fun detection_iterations ::
  "config \<Rightarrow> iter_env list \<Rightarrow> detector \<times> loop_vars \<times> annotated option
     \<Rightarrow> (detector \<times> loop_vars \<times> annotated option) \<times> loop_event list \<times> bool" where
  "detection_iterations cfg [] s = (s, [], False)"
| "detection_iterations cfg (e # es) s =
     (case s of (d, lv, slot) \<Rightarrow>
        if \<not> is_running d then ((loop_cleanup d, lv, slot), [], True)
        else
          (case detection_iteration cfg e s of
             ((d1, lv1, slot1), Break, evs) \<Rightarrow> ((loop_cleanup d1, lv1, slot1), evs, True)
           | (s1, Continue, evs) \<Rightarrow>
               (case detection_iterations cfg es s1 of
                  (s2, evs2, ended) \<Rightarrow> (s2, evs @ evs2, ended))))"

definition detection_loop ::
  "config \<Rightarrow> iter_env list \<Rightarrow> detector \<times> annotated option
     \<Rightarrow> (detector \<times> loop_vars \<times> annotated option) \<times> loop_event list \<times> bool" where
  "detection_loop cfg envs s =
     (case s of (d, slot) \<Rightarrow> detection_iterations cfg envs (d, init_loop_vars, slot))"

definition forced_reconnects :: "loop_event list \<Rightarrow> nat" where
  "forced_reconnects evs = length (filter (\<lambda>e. e = ForcedReconnect) evs)"

definition reconnects :: "loop_event list \<Rightarrow> nat" where
  "reconnects evs = length (filter (\<lambda>e. e = Reconnect \<or> e = ForcedReconnect \<or> e = StuckRead) evs)"

section \<open>The HTTP layer and the monitor\<close>

text \<open>
  The module-level state of \<open>app.py\<close>. \<open>monitoring_alive\<close> says whether the monitoring
  thread exists and is alive.
\<close>

record app =
  detection_active :: bool
  monitoring_alive :: bool
  monitoring_active :: bool
  current_settings :: "settings option"
  latest_frame :: "annotated option"

text \<open>
  The process: the module state, the detector singleton, and the local variables of every
  live worker thread running \<open>detection_loop\<close>.
\<close>

record world =
  api :: app
  det :: detector
  workers :: "loop_vars list"

definition init_world :: world where
  "init_world =
     \<lparr> api = \<lparr> detection_active = False, monitoring_alive = False, monitoring_active = False,
               current_settings = None, latest_frame = None \<rparr>,
       det = init_detector, workers = [] \<rparr>"

record response =
  status_code :: nat
  success :: bool
  message :: string

definition start_monitoring :: "app \<Rightarrow> app" where
  "start_monitoring a =
     (if \<not> monitoring_alive a then a\<lparr>monitoring_active := True, monitoring_alive := True\<rparr>
      else a)"

definition clear_latest_frame :: "app \<Rightarrow> app" where
  "clear_latest_frame a = a\<lparr>latest_frame := None\<rparr>"

definition update_latest_frame :: "annotated \<Rightarrow> app \<Rightarrow> app" where
  "update_latest_frame fr a = a\<lparr>latest_frame := Some fr\<rparr>"

text \<open>
  The \<open>/start\<close> handler. \<open>authorized\<close> says whether the request carries an
  \<open>Authorization\<close> header. The text of an escaping exception is left out of the 500
  message.
\<close>

definition api_start_detection ::
  "start_env \<Rightarrow> bool \<Rightarrow> settings \<Rightarrow> world \<Rightarrow> response \<times> world" where
  "api_start_detection env authorized body w =
     (if detection_active (api w)
      then (\<lparr>status_code = 400, success = False, message = ''Detection is already running''\<rparr>, w)
      else if \<not> truthy (ipCameraUrl body)
      then (\<lparr>status_code = 400, success = False, message = ''Camera URL is required''\<rparr>, w)
      else
        let s1 = body\<lparr>enablePersonDetection := Some (get_or (enablePersonDetection body) True)\<rparr>;
            s2 = (if authorized then s1\<lparr>userId := Some ''user-from-token''\<rparr> else s1)
        in case start_detection env s2 (det w) of
             (Inr (True, msg), d1) \<Rightarrow>
               (\<lparr>status_code = 200, success = True, message = msg\<rparr>,
                w\<lparr> api := start_monitoring
                             ((api w)\<lparr>detection_active := True, current_settings := Some s2\<rparr>),
                    det := set_frame_callback d1,
                    workers := workers w @ [init_loop_vars] \<rparr>)
           | (Inr (False, msg), d1) \<Rightarrow>
               (\<lparr>status_code = 400, success = False, message = msg\<rparr>, w\<lparr>det := d1\<rparr>)
           | (Inl e, d1) \<Rightarrow>
               (\<lparr>status_code = 500, success = False, message = ''Server error''\<rparr>,
                w\<lparr>api := (api w)\<lparr>detection_active := False\<rparr>, det := d1\<rparr>))"

text \<open>
  The \<open>/stop\<close> handler. Releasing a capture is taken not to raise, so the handler's
  \<open>except\<close> branch has no counterpart here.
\<close>

definition api_stop_detection :: "world \<Rightarrow> response \<times> world" where
  "api_stop_detection w =
     (if \<not> detection_active (api w)
      then (\<lparr>status_code = 400, success = False, message = ''Detection is not running''\<rparr>, w)
      else
        (case stop_detection (det w) of
           ((True, msg), d1) \<Rightarrow>
             (\<lparr>status_code = 200, success = True, message = msg\<rparr>,
              w\<lparr> api := (api w)\<lparr>detection_active := False, latest_frame := None,
                                current_settings := None\<rparr>,
                  det := d1 \<rparr>)
         | ((False, msg), d1) \<Rightarrow>
             (\<lparr>status_code = 400, success = False, message = msg\<rparr>, w\<lparr>det := d1\<rparr>)))"

text \<open>
  Truthiness of the saved settings (\<open>if current_settings:\<close>): a dictionary that exists
  and has a key.
\<close>

definition settings_truthy :: "settings option \<Rightarrow> bool" where
  "settings_truthy v =
     (case v of
        None \<Rightarrow> False
      | Some s \<Rightarrow>
          ipCameraUrl s \<noteq> None \<or> ipCameraPort s \<noteq> None \<or> ntfyTopic s \<noteq> None
          \<or> ntfyPriority s \<noteq> None \<or> enablePersonDetection s \<noteq> None \<or> userId s \<noteq> None
          \<or> supabaseUrl s \<noteq> None \<or> supabaseKey s \<noteq> None \<or> enableLogging s \<noteq> None)"

text \<open>
  What the outside world answers during one pass of the monitor: the clock when it
  re-stamps the heartbeat, the answers for a restart, and the clock when it reads the
  heartbeat age.
\<close>

record monitor_env =
  beat_time :: real
  restart_env :: start_env
  age_time :: real

datatype monitor_event =
    StopCalled
  | StartCalled settings
  | RestartFailed
  | HeartbeatWarning real

text \<open>Lines 50-69: the restart, entered when the detector is not running.\<close>

definition monitor_restart :: "start_env \<Rightarrow> settings \<Rightarrow> world \<Rightarrow> world \<times> monitor_event list" where
  "monitor_restart env st w =
     (case stop_detection (det w) of
        (r0, d1) \<Rightarrow>
          (case start_detection env st d1 of
             (Inr (True, msg), d2) \<Rightarrow>
               (w\<lparr>det := set_frame_callback d2, workers := workers w @ [init_loop_vars]\<rparr>,
                [StopCalled, StartCalled st])
           | (r, d2) \<Rightarrow>
               (w\<lparr>api := clear_latest_frame ((api w)\<lparr>detection_active := False\<rparr>), det := d2\<rparr>,
                [StopCalled, StartCalled st, RestartFailed])))"

text \<open>One pass through the body of \<open>while monitoring_active\<close> in \<open>monitor_detector\<close>.\<close>

definition monitor_detector :: "monitor_env \<Rightarrow> world \<Rightarrow> world \<times> monitor_event list" where
  "monitor_detector env w =
     (if \<not> detection_active (api w) then (w, [])
      else
        let w1 = w\<lparr>det := heartbeat (beat_time env) (det w)\<rparr>;
            (w2, evs) =
              (if \<not> is_running (det w1) \<and> settings_truthy (current_settings (api w1))
               then (case current_settings (api w1) of
                       None \<Rightarrow> (w1, [])
                     | Some st \<Rightarrow> monitor_restart (restart_env env) st w1)
               else (w1, []));
            heartbeat_age = get_last_heartbeat_age (age_time env) (det w2)
        in (w2, evs @ (if heartbeat_age > heartbeat_interval (det w2) * 2
                       then [HeartbeatWarning heartbeat_age] else [])))"

definition restart_performed :: "monitor_event list \<Rightarrow> bool" where
  "restart_performed evs = (StopCalled \<in> set evs)"

definition warned :: "monitor_event list \<Rightarrow> bool" where
  "warned evs = (\<exists>a \<in> set evs. case a of HeartbeatWarning x \<Rightarrow> True | _ \<Rightarrow> False)"

section \<open>Runs of the process\<close>

text \<open>
  A worker thread takes a turn: at the head of its loop it either ends (the detector is
  not running), cleans up and dies, or runs one iteration, publishing to the frame slot
  through the registered callback; a \<open>break\<close> ends it the same way.
\<close>

definition remove_nth :: "nat \<Rightarrow> 'a list \<Rightarrow> 'a list" where
  "remove_nth i xs = take i xs @ drop (Suc i) xs"

definition worker_turn :: "config \<Rightarrow> nat \<Rightarrow> iter_env \<Rightarrow> world \<Rightarrow> world" where
  "worker_turn cfg i env w =
     (if i \<ge> length (workers w) then w
      else if \<not> is_running (det w)
      then w\<lparr>det := loop_cleanup (det w), workers := remove_nth i (workers w)\<rparr>
      else
        (case detection_iteration cfg env (det w, workers w ! i, latest_frame (api w)) of
           ((d1, lv1, slot1), Break, evs) \<Rightarrow>
             w\<lparr> api := (api w)\<lparr>latest_frame := slot1\<rparr>, det := loop_cleanup d1,
                 workers := remove_nth i (workers w) \<rparr>
         | ((d1, lv1, slot1), Continue, evs) \<Rightarrow>
             w\<lparr> api := (api w)\<lparr>latest_frame := slot1\<rparr>, det := d1,
                 workers := (workers w)[i := lv1] \<rparr>))"

text \<open>
  The steps of the process, each atomic: a request to \<open>/start\<close> or \<open>/stop\<close>, a pass of the
  monitor, a turn of worker \<open>i\<close>.
\<close>

datatype event =
    StartRequest start_env bool settings
  | StopRequest
  | MonitorPass monitor_env
  | WorkerTurn nat iter_env

definition step :: "config \<Rightarrow> event \<Rightarrow> world \<Rightarrow> world" where
  "step cfg ev w =
     (case ev of
        StartRequest env authorized body \<Rightarrow> snd (api_start_detection env authorized body w)
      | StopRequest \<Rightarrow> snd (api_stop_detection w)
      | MonitorPass env \<Rightarrow>
          (if monitoring_active (api w) \<and> monitoring_alive (api w)
           then fst (monitor_detector env w) else w)
      | WorkerTurn i env \<Rightarrow> worker_turn cfg i env w)"

fun run_events :: "config \<Rightarrow> event list \<Rightarrow> world \<Rightarrow> world" where
  "run_events cfg [] w = w"
| "run_events cfg (ev # evs) w = run_events cfg evs (step cfg ev w)"

section \<open>Observations used in the statements\<close>

text \<open>The number of notification requests among the calls.\<close>

definition notify_count :: "call list \<Rightarrow> nat" where
  "notify_count cs = length (filter is_notify cs)"

text \<open>Whether a request was built and its body contains \<open>pat\<close>.\<close>

definition request_mentions :: "string \<Rightarrow> http_post option \<Rightarrow> bool" where
  "request_mentions pat r = (case r of None \<Rightarrow> False | Some p \<Rightarrow> py_contains pat (post_body p))"

definition request_priority :: "http_post option \<Rightarrow> string option" where
  "request_priority r = map_option post_priority r"

text \<open>The detections that do not take the person branch of \<open>process_detection\<close>.\<close>

definition unthrottled :: "detector \<Rightarrow> detection \<Rightarrow> bool" where
  "unthrottled d x = (\<not> (py_lower (object_class x) = ''person'' \<and> enable_person_detection d))"

definition log_call :: "detection \<Rightarrow> call" where
  "log_call x = LogDetection (object_class x) (confidence x)"

text \<open>Whether \<open>start_detection\<close> returned with \<open>success\<close> true (no exception, no failure).\<close>

definition start_succeeded :: "(error + bool \<times> string) \<Rightarrow> bool" where
  "start_succeeded r = (case r of Inl e \<Rightarrow> False | Inr (ok, msg) \<Rightarrow> ok)"

text \<open>The events and the final local variables of a run of the loop.\<close>

definition loop_events ::
  "(detector \<times> loop_vars \<times> annotated option) \<times> loop_event list \<times> bool \<Rightarrow> loop_event list" where
  "loop_events r = fst (snd r)"

definition final_vars ::
  "(detector \<times> loop_vars \<times> annotated option) \<times> loop_event list \<times> bool \<Rightarrow> loop_vars" where
  "final_vars r = fst (snd (fst r))"

text \<open>
  An iteration that reaches \<open>cap.read()\<close> (enough time since the last detection at \<open>t0\<close>,
  the read returns in time) and gets no frame, where a capture reopened in it opens; and
  one that reaches the read and gets a frame.
\<close>

definition read_fails :: "config \<Rightarrow> real \<Rightarrow> iter_env \<Rightarrow> bool" where
  "read_fails cfg t0 e =
     (\<not> current_time e - t0 < DETECTION_INTERVAL cfg \<and> \<not> read_stuck (frame_read e)
      \<and> good_frame (frame_read e) = None \<and> reopen e = Opened)"

definition read_succeeds :: "config \<Rightarrow> real \<Rightarrow> iter_env \<Rightarrow> bool" where
  "read_succeeds cfg t0 e =
     (\<not> current_time e - t0 < DETECTION_INTERVAL cfg \<and> \<not> read_stuck (frame_read e)
      \<and> good_frame (frame_read e) \<noteq> None)"






section \<open>Sample inputs\<close>

text \<open>Concrete detectors, settings, outside answers and runs, for the closed theorems.\<close>

definition alerts_detector :: detector where
  "alerts_detector = init_detector\<lparr>ntfy_topic := Some ''alerts'', model_loaded := True,
     is_running := True, stream_url := Some (Webcam 0),
     cap := Some \<lparr>source = Some (Webcam 0), opened = True\<rparr>\<rparr>"

definition demo_config :: config where
  "demo_config = \<lparr>DETECTION_INTERVAL = 1, NTFY_BASE_URL = ''https://ntfy.sh''\<rparr>"

definition person_092 :: detection where
  "person_092 = \<lparr>object_class = ''person'', confidence = 0.92, box = [10, 20, 110, 220]\<rparr>"

definition car_detection :: detection where
  "car_detection = \<lparr>object_class = ''car'', confidence = 0.8, box = [0, 0, 50, 50]\<rparr>"

definition dog_detection :: detection where
  "dog_detection = \<lparr>object_class = ''dog'', confidence = 0.7, box = [5, 5, 60, 60]\<rparr>"

definition logging_detector :: detector where
  "logging_detector = init_detector\<lparr>enable_logging := True,
     supabase_url := Some ''https://db.example'', supabase_key := Some ''key'',
     user_id := Some ''unknown-user''\<rparr>"

definition demo_settings :: settings where
  "demo_settings =
     \<lparr> ipCameraUrl = Some ''webcam://0'', ipCameraPort = None, ntfyTopic = Some ''alerts'',
       ntfyPriority = None, enablePersonDetection = Some True, userId = None,
       supabaseUrl = None, supabaseKey = None, enableLogging = None \<rparr>"

definition good_start :: start_env where
  "good_start = \<lparr>start_time = 1000, load_ok = True, video_open = Opened, thread_ok = True\<rparr>"

definition embedded_settings :: settings where
  "embedded_settings = demo_settings\<lparr>ipCameraUrl := Some ''webcam://1webcam://2''\<rparr>"

definition car_frame :: iter_env where
  "car_frame =
     \<lparr> current_time = 1002, reopen = Opened,
       frame_read = ReadReturned True (Some (Frame 1)) False,
       inference = Inferred [car_detection], current_ms = 1002000, process_time = 1002 \<rparr>"

definition session_with_alert :: "event list" where
  "session_with_alert = [StartRequest good_start False demo_settings, WorkerTurn 0 car_frame]"

definition later_start :: start_env where
  "later_start = \<lparr>start_time = 1010, load_ok = True, video_open = Opened, thread_ok = True\<rparr>"

definition started_detector :: detector where
  "started_detector = init_detector\<lparr>last_heartbeat := 1000, stream_url := Some (Webcam 0),
     ntfy_topic := Some ''alerts'', user_id := Some ''unknown-user'', model_loaded := True,
     cap := Some \<lparr>source = Some (Webcam 0), opened = True\<rparr>, is_running := True,
     frame_callback := True\<rparr>"

definition started_world :: world where
  "started_world =
     \<lparr> api = \<lparr> detection_active = True, monitoring_alive = True, monitoring_active = True,
               current_settings = Some demo_settings, latest_frame = None \<rparr>,
       det = started_detector, workers = [init_loop_vars] \<rparr>"

definition stale_monitor_env :: monitor_env where
  "stale_monitor_env = \<lparr>beat_time = 1100, restart_env = later_start, age_time = 1120\<rparr>"

definition diverged_world :: world where
  "diverged_world =
     started_world\<lparr> api := (api started_world)\<lparr>latest_frame := Some (Frame 1, [])\<rparr>,
                    det := started_detector\<lparr>is_running := False, cap := None\<rparr>,
                    workers := [] \<rparr>"

definition closed_camera_env :: monitor_env where
  "closed_camera_env =
     \<lparr> beat_time = 1100,
       restart_env = \<lparr>start_time = 1102, load_ok = True, video_open = NotOpened, thread_ok = True\<rparr>,
       age_time = 1103 \<rparr>"

definition no_thread_env :: monitor_env where
  "no_thread_env =
     \<lparr> beat_time = 1100,
       restart_env = \<lparr>start_time = 1102, load_ok = True, video_open = Opened, thread_ok = False\<rparr>,
       age_time = 1103 \<rparr>"

definition dead_read :: iter_env where
  "dead_read =
     \<lparr> current_time = 1002, reopen = Opened, frame_read = ReadReturned False None False,
       inference = Inferred [], current_ms = 1002000, process_time = 1002 \<rparr>"





section \<open>Properties of the notification throttle\<close>

lemma py_contains_prefix: "py_contains pat (pat @ ys)"
proof (cases "pat @ ys")
  case Nil
  then show ?thesis by simp
next
  case (Cons a l)
  have "take (length pat) (pat @ ys) = pat" by simp
  then show ?thesis unfolding Cons by (simp add: startswith_def)
qed

lemma py_contains_append: "py_contains pat (xs @ pat @ ys)"
  by (induction xs) (auto simp: py_contains_prefix)

lemma format_percent2_092: "format_percent2 0.92 = ''92.00%''"
  by (simp add: format_percent2_def round_half_even_def str_nat.simps digit_char_def Let_def)

lemma format_percent2_092_normal: "format_percent2 (23 / 25) = ''92.00%''"
  using format_percent2_092 by simp

lemma process_detections_Cons [simp]:
  "process_detections t (x # xs) d =
     (fst (process_detections t xs (fst (process_detection t d x))),
      snd (process_detection t d x) @ snd (process_detections t xs (fst (process_detection t d x))))"
  by (simp split: prod.splits)

declare process_detections.simps(2) [simp del]

lemma process_detection_keeps:
  "\<exists>m. fst (process_detection t d x) = d\<lparr>last_notification_time := m\<rparr>"
  by (auto simp: process_detection_def Let_def intro: exI[of _ "last_notification_time d"])

lemma process_detections_keeps:
  "\<exists>m. fst (process_detections t xs d) = d\<lparr>last_notification_time := m\<rparr>"
proof (induction xs arbitrary: d)
  case Nil
  show ?case by (auto intro: exI[of _ "last_notification_time d"])
next
  case (Cons x xs)
  obtain m1 where m1: "fst (process_detection t d x) = d\<lparr>last_notification_time := m1\<rparr>"
    using process_detection_keeps by blast
  obtain m2 where m2: "fst (process_detections t xs (d\<lparr>last_notification_time := m1\<rparr>))
      = d\<lparr>last_notification_time := m1, last_notification_time := m2\<rparr>"
    using Cons.IH by blast
  show ?case using m1 m2 by auto
qed

lemma person_branch:
  assumes "py_lower (object_class x) = ''person''" "enable_person_detection d"
    "truthy (ntfy_topic d)" "cooldown_over d now (object_class x)"
  shows "process_detection now d x =
    (d\<lparr>last_notification_time := (last_notification_time d)(object_class x \<mapsto> now)\<rparr>,
     SendNotification (object_class x) (confidence x) True
       # (if logging_on d then [LogDetection (object_class x) (confidence x)] else []))"
  using assms by (simp add: process_detection_def Let_def)

lemma send_person:
  assumes "py_lower cls = ''person''" "ntfy_topic d = Some topic"
  shows "\<exists>p. send_notification cfg stamp d cls conf pr = Some p \<and> post_priority p = ''urgent''
     \<and> post_body p = ''['' @ stamp @ ''] A person was detected with '' @ format_percent2 conf @ '' confidence''"
  using assms by (simp add: send_notification_def Let_def)

text \<open>
  Claim C7. When the loop body of \<open>process_detections\<close> handles a detection whose class
  lower-cases to \<open>person\<close>, with person alerting enabled, a topic configured and the
  cooldown over, it requests exactly one notification, flagged as priority, and the
  request \<open>send_notification\<close> builds for it carries the priority \<open>urgent\<close>, whatever
  the configured \<open>ntfy_priority\<close> of the detector is.
\<close>

theorem person_alert_is_urgent:
  assumes "py_lower (object_class x) = ''person''" "enable_person_detection d"
    "truthy (ntfy_topic d)" "cooldown_over d now (object_class x)"
  shows "filter is_notify (snd (process_detection now d x))
           = [SendNotification (object_class x) (confidence x) True]
       \<and> (\<exists>p. send_notification cfg stamp d (object_class x) (confidence x) True = Some p
              \<and> post_priority p = ''urgent'')"
proof -
  obtain topic where "ntfy_topic d = Some topic"
    using assms(3) by (auto simp: truthy_def split: option.splits)
  then have "\<exists>p. send_notification cfg stamp d (object_class x) (confidence x) True = Some p
              \<and> post_priority p = ''urgent''"
    using send_person[OF assms(1)] by blast
  moreover have "filter is_notify (snd (process_detection now d x))
           = [SendNotification (object_class x) (confidence x) True]"
    by (simp add: person_branch[OF assms] is_notify_def)
  ultimately show ?thesis by blast
qed

lemma step_eligible:
  assumes "truthy (ntfy_topic d)" "cooldown_over d t (object_class x)"
  shows "notify_count (snd (process_detection t d x)) = 1"
    and "last_notification_time (fst (process_detection t d x)) (object_class x) = Some t"
  using assms by (auto simp: process_detection_def Let_def notify_count_def is_notify_def)

lemma step_blocked:
  assumes "\<not> cooldown_over d t (object_class x)"
  shows "process_detection t d x = (d, [])"
  using assms by (auto simp: process_detection_def Let_def)

lemma process_detections_single: "process_detections t [x] d = process_detection t d x"
  by simp

text \<open>
  Claim C2. With a topic configured, take two frames, each with one detection of the same
  class, the first processed when the cooldown of that class is over. If the second comes
  less than \<open>notification_cooldown\<close> after the first, the two frames request exactly one
  notification; if it comes more than \<open>notification_cooldown\<close> after, they request two.
  This holds for every class, so in particular for every class other than \<open>person\<close>.
\<close>

theorem cooldown_one_or_two:
  assumes "truthy (ntfy_topic d)" "cooldown_over d t1 (object_class x1)"
    "object_class x2 = object_class x1"
  shows "(t2 - t1 < notification_cooldown d \<longrightarrow>
           notify_count (snd (process_detections t1 [x1] d)
             @ snd (process_detections t2 [x2] (fst (process_detections t1 [x1] d)))) = 1)
       \<and> (notification_cooldown d < t2 - t1 \<longrightarrow>
           notify_count (snd (process_detections t1 [x1] d)
             @ snd (process_detections t2 [x2] (fst (process_detections t1 [x1] d)))) = 2)"
proof -
  let ?d1 = "fst (process_detection t1 d x1)"
  obtain m where m: "?d1 = d\<lparr>last_notification_time := m\<rparr>"
    using process_detection_keeps by blast
  have one: "notify_count (snd (process_detection t1 d x1)) = 1"
    and tbl: "last_notification_time ?d1 (object_class x2) = Some t1"
    using step_eligible[OF assms(1,2)] assms(3) by simp_all
  have cd: "notification_cooldown ?d1 = notification_cooldown d"
    and tp: "truthy (ntfy_topic ?d1)"
    using m assms(1) by simp_all
  have over: "cooldown_over ?d1 t2 (object_class x2) = (notification_cooldown d < t2 - t1)"
    using tbl cd by (simp add: cooldown_over_def)
  have app: "\<And>a b. notify_count (a @ b) = notify_count a + notify_count b"
    by (simp add: notify_count_def)
  show ?thesis
  proof (intro conjI impI)
    assume "t2 - t1 < notification_cooldown d"
    then have "\<not> cooldown_over ?d1 t2 (object_class x2)" using over by simp
    then have "process_detection t2 ?d1 x2 = (?d1, [])" by (rule step_blocked)
    then show "notify_count (snd (process_detections t1 [x1] d)
             @ snd (process_detections t2 [x2] (fst (process_detections t1 [x1] d)))) = 1"
      using one by (simp add: app notify_count_def)
  next
    assume "notification_cooldown d < t2 - t1"
    then have "cooldown_over ?d1 t2 (object_class x2)" using over by simp
    then have "notify_count (snd (process_detection t2 ?d1 x2)) = 1"
      using step_eligible(1)[OF tp] by blast
    then show "notify_count (snd (process_detections t1 [x1] d)
             @ snd (process_detections t2 [x2] (fst (process_detections t1 [x1] d)))) = 2"
      using one by (simp add: app)
  qed
qed

lemmas eval_defs = process_detection_def cooldown_over_def truthy_def logging_on_def
  init_detector_def py_lower_def py_lower_char_def is_notify_def notify_count_def Let_def

text \<open>
  Claim C8, as stated, fails on the message: the format spec \<open>.2%\<close> renders the confidence
  0.92 as \<open>92.00%\<close>, so the body of the one urgent request does not contain \<open>92%\<close>.
\<close>

theorem person_092_message_counterexample:
  "snd (process_detections 1000 [person_092] alerts_detector)
      = [SendNotification ''person'' 0.92 True]
   \<and> request_priority (send_notification demo_config ''12:00:00'' alerts_detector ''person'' 0.92 True)
      = Some ''urgent''
   \<and> \<not> request_mentions ''92%''
        (send_notification demo_config ''12:00:00'' alerts_detector ''person'' 0.92 True)"
  by (simp add: eval_defs alerts_detector_def person_092_def send_notification_def
      request_mentions_def request_priority_def format_percent2_092 format_percent2_092_normal startswith_def
      demo_config_def rstrip_slash_def lstrip_slash_def)

text \<open>
  Claim C8, amended. A single \<open>person\<close> detection at confidence 0.92, with person alerting
  enabled, a topic configured and no earlier person notification, requests exactly one
  notification; its request has priority \<open>urgent\<close> and a body containing \<open>92.00%\<close>.
\<close>

theorem person_092_scenario:
  assumes "truthy (ntfy_topic d)" "enable_person_detection d"
    "last_notification_time d ''person'' = None"
  shows "filter is_notify
           (snd (process_detections now [\<lparr>object_class = ''person'', confidence = 0.92, box = b\<rparr>] d))
           = [SendNotification ''person'' 0.92 True]
       \<and> request_priority (send_notification cfg stamp d ''person'' 0.92 True) = Some ''urgent''
       \<and> request_mentions ''92.00%'' (send_notification cfg stamp d ''person'' 0.92 True)"
proof -
  let ?x = "\<lparr>object_class = ''person'', confidence = 0.92, box = b\<rparr>"
  have low: "py_lower (object_class ?x) = ''person''"
    by (simp add: py_lower_def py_lower_char_def)
  have over: "cooldown_over d now (object_class ?x)"
    using assms(3) by (simp add: cooldown_over_def)
  have calls: "filter is_notify (snd (process_detections now [?x] d))
           = [SendNotification ''person'' 0.92 True]"
    using person_branch[OF low assms(2) assms(1) over] by (simp add: is_notify_def)
  obtain topic where "ntfy_topic d = Some topic"
    using assms(1) by (auto simp: truthy_def split: option.splits)
  then obtain p where p: "send_notification cfg stamp d ''person'' 0.92 True = Some p"
      "post_priority p = ''urgent''"
      "post_body p = ''['' @ stamp @ ''] A person was detected with ''
          @ format_percent2 0.92 @ '' confidence''"
    using send_person[of "''person''" d topic cfg stamp "0.92" True] low by auto
  have "post_body p = (''['' @ stamp @ ''] A person was detected with '') @ ''92.00%'' @ '' confidence''"
    using p(3) by (simp add: format_percent2_092 format_percent2_092_normal)
  then have "py_contains ''92.00%'' (post_body p)"
    using py_contains_append[of "''92.00%''" "''['' @ stamp @ ''] A person was detected with ''" "'' confidence''"]
    by simp
  then show ?thesis using calls p(1,2)
    by (simp add: request_priority_def request_mentions_def)
qed

text \<open>
  The scenario on the detector started with the topic \<open>alerts\<close>.
\<close>

theorem person_092_scenario_witness:
  "filter is_notify (snd (process_detections 1000 [person_092] alerts_detector))
           = [SendNotification ''person'' 0.92 True]
       \<and> request_priority (send_notification demo_config ''12:00:00'' alerts_detector ''person'' 0.92 True) = Some ''urgent''
       \<and> request_mentions ''92.00%'' (send_notification demo_config ''12:00:00'' alerts_detector ''person'' 0.92 True)"
  using person_092_scenario[of alerts_detector 1000 "[10, 20, 110, 220]" demo_config "''12:00:00''"]
  by (simp add: alerts_detector_def init_detector_def truthy_def person_092_def)

text \<open>
  Two detections of \<open>car\<close> 30 seconds apart, and two 61 seconds apart, with the default
  cooldown of 60 seconds.
\<close>

theorem cooldown_one_or_two_witness:
  "notify_count (snd (process_detections 1000 [car_detection] alerts_detector)
      @ snd (process_detections 1030 [car_detection]
               (fst (process_detections 1000 [car_detection] alerts_detector)))) = 1
   \<and> notify_count (snd (process_detections 1000 [car_detection] alerts_detector)
      @ snd (process_detections 1061 [car_detection]
               (fst (process_detections 1000 [car_detection] alerts_detector)))) = 2"
  using cooldown_one_or_two[of alerts_detector 1000 car_detection car_detection 1030]
    cooldown_one_or_two[of alerts_detector 1000 car_detection car_detection 1061]
  by (simp add: alerts_detector_def init_detector_def truthy_def cooldown_over_def)

text \<open>
  A person detection on a detector whose configured priority is \<open>low\<close>.
\<close>

theorem person_alert_is_urgent_witness:
  "filter is_notify (snd (process_detection 1000 (alerts_detector\<lparr>ntfy_priority := ''low''\<rparr>) person_092))
      = [SendNotification ''person'' 0.92 True]
   \<and> (\<exists>p. send_notification demo_config ''12:00:00'' (alerts_detector\<lparr>ntfy_priority := ''low''\<rparr>)
             ''person'' 0.92 True = Some p \<and> post_priority p = ''urgent'')"
  using person_alert_is_urgent[of person_092 "alerts_detector\<lparr>ntfy_priority := ''low''\<rparr>" 1000
      demo_config "''12:00:00''"]
  by (simp add: alerts_detector_def init_detector_def truthy_def cooldown_over_def person_092_def
      py_lower_def py_lower_char_def)

lemma written_only_on_send_step:
  assumes "last_notification_time (fst (process_detection t d x)) c \<noteq> last_notification_time d c"
  shows "\<exists>conf pr. SendNotification c conf pr \<in> set (snd (process_detection t d x))"
  using assms by (auto simp: process_detection_def Let_def split: if_splits)

lemma written_only_on_send:
  assumes "last_notification_time (fst (process_detections t xs d)) c \<noteq> last_notification_time d c"
  shows "\<exists>conf pr. SendNotification c conf pr \<in> set (snd (process_detections t xs d))"
  using assms
proof (induction xs arbitrary: d)
  case Nil
  then show ?case by simp
next
  case (Cons x xs)
  let ?d1 = "fst (process_detection t d x)"
  have fst_eq: "fst (process_detections t (x # xs) d) = fst (process_detections t xs ?d1)"
    by simp
  have snd_eq: "snd (process_detections t (x # xs) d)
      = snd (process_detection t d x) @ snd (process_detections t xs ?d1)"
    by simp
  show ?case
  proof (cases "last_notification_time ?d1 c = last_notification_time d c")
    case True
    then have "last_notification_time (fst (process_detections t xs ?d1)) c
        \<noteq> last_notification_time ?d1 c"
      using Cons.prems fst_eq by simp
    then show ?thesis using Cons.IH snd_eq by fastforce
  next
    case False
    then show ?thesis using written_only_on_send_step snd_eq by fastforce
  qed
qed

lemma no_topic_step:
  assumes "\<not> truthy (ntfy_topic d)"
  shows "fst (process_detection t d x) = d"
  using assms by (simp add: process_detection_def Let_def)

lemma no_topic_table:
  assumes "\<not> truthy (ntfy_topic d)"
  shows "fst (process_detections t xs d) = d"
  using assms by (induction xs) (simp_all add: no_topic_step)

lemma no_topic_calls_step:
  assumes "\<not> truthy (ntfy_topic d)" "last_notification_time d = Map.empty" "logging_on d"
  shows "snd (process_detection t d x) = (if unthrottled d x then [log_call x] else [])"
  using assms by (simp add: process_detection_def Let_def cooldown_over_def unthrottled_def log_call_def)

lemma no_topic_calls:
  assumes "\<not> truthy (ntfy_topic d)" "last_notification_time d = Map.empty" "logging_on d"
  shows "snd (process_detections t xs d) = map log_call (filter (unthrottled d) xs)"
proof (induction xs)
  case Nil
  show ?case by simp
next
  case (Cons x xs)
  have "snd (process_detections t (x # xs) d)
      = snd (process_detection t d x) @ snd (process_detections t xs (fst (process_detection t d x)))"
    by simp
  then show ?case
    using Cons.IH no_topic_step[OF assms(1)] no_topic_calls_step[OF assms] by simp
qed

text \<open>
  Claim C9. \<open>process_detections\<close> changes the entry of a class in
  \<open>last_notification_time\<close> only if it requests a notification for that class. So without
  a topic the table is left as it is, and, starting from an empty table with logging
  enabled and credentials present, a frame logs every detection that does not take the
  person branch, one log call each, in order: an empty table throttles nothing, and it is
  still empty for the next frame.
\<close>

theorem table_written_only_on_send:
  "(\<forall>c. last_notification_time (fst (process_detections t xs d)) c \<noteq> last_notification_time d c
        \<longrightarrow> (\<exists>conf pr. SendNotification c conf pr \<in> set (snd (process_detections t xs d))))
   \<and> (\<not> truthy (ntfy_topic d)
        \<longrightarrow> last_notification_time (fst (process_detections t xs d)) = last_notification_time d)
   \<and> (\<not> truthy (ntfy_topic d) \<and> last_notification_time d = Map.empty \<and> logging_on d
        \<longrightarrow> snd (process_detections t xs d) = map log_call (filter (unthrottled d) xs))"
  using written_only_on_send no_topic_table no_topic_calls by auto

text \<open>
  A \<open>car\<close> on a detector with a topic writes the entry and sends; a frame with a car, a
  person and a dog on a logging detector without topic logs the car and the dog, leaves
  the table empty, and does the same one second later.
\<close>

theorem table_written_only_on_send_witness:
  "(\<exists>conf pr. SendNotification ''car'' conf pr
        \<in> set (snd (process_detections 1000 [car_detection] alerts_detector)))
   \<and> last_notification_time
        (fst (process_detections 1000 [car_detection, person_092, dog_detection] logging_detector))
        = Map.empty
   \<and> snd (process_detections 1000 [car_detection, person_092, dog_detection] logging_detector)
        = [LogDetection ''car'' 0.8, LogDetection ''dog'' 0.7]
   \<and> snd (process_detections 1001 [car_detection, person_092, dog_detection]
             (fst (process_detections 1000 [car_detection, person_092, dog_detection] logging_detector)))
        = [LogDetection ''car'' 0.8, LogDetection ''dog'' 0.7]"
proof -
  have changed: "last_notification_time (fst (process_detections 1000 [car_detection] alerts_detector)) ''car''
      \<noteq> last_notification_time alerts_detector ''car''"
    by (simp add: eval_defs alerts_detector_def car_detection_def)
  have quiet: "\<not> truthy (ntfy_topic logging_detector)"
    "last_notification_time logging_detector = Map.empty" "logging_on logging_detector"
    by (simp_all add: logging_detector_def init_detector_def truthy_def logging_on_def)
  have flt: "filter (unthrottled logging_detector) [car_detection, person_092, dog_detection]
      = [car_detection, dog_detection]"
    by (simp add: unthrottled_def logging_detector_def init_detector_def car_detection_def
        person_092_def dog_detection_def py_lower_def py_lower_char_def)
  have same: "fst (process_detections 1000 [car_detection, person_092, dog_detection] logging_detector)
      = logging_detector"
    by (rule no_topic_table[OF quiet(1)])
  show ?thesis
    using table_written_only_on_send[of 1000 "[car_detection]" alerts_detector]
      table_written_only_on_send[of 1000 "[car_detection, person_092, dog_detection]" logging_detector]
      table_written_only_on_send[of 1001 "[car_detection, person_092, dog_detection]" logging_detector]
      changed quiet flt
    unfolding same
    by (simp add: log_call_def car_detection_def dog_detection_def del: process_detections_Cons)
qed

section \<open>Starting, stopping and the stream locator\<close>

lemma remove_all_embedded: "remove_all ''webcam://'' ''webcam://1webcam://2'' = ''12''"
  by (simp add: startswith_def)

lemma py_int_twelve: "py_int ''12'' = Some 12"
  by (simp add: py_int_def py_strip_def py_isspace_def digit_value_def)

lemma py_int_embedded: "py_int ''1webcam://2'' = None"
  by (simp add: py_int_def py_strip_def py_isspace_def digit_value_def)

lemma py_int_signed_underscore: "py_int '' -1_0 '' = Some (-10)"
  by (simp add: py_int_def py_strip_def py_isspace_def digit_value_def)

lemma resolve_stream_embedded: "resolve_stream ''webcam://1webcam://2'' [] = Webcam 12"
  by (simp add: resolve_stream_def remove_all_embedded py_int_twelve startswith_def)

text \<open>
  Claim C10 at the locator \<open>webcam://1webcam://2\<close>. What follows the scheme,
  \<open>1webcam://2\<close>, is not an integer, yet \<open>start_detection\<close> does not fall back to
  index 0: \<open>replace\<close> deletes every occurrence of the scheme, \<open>12\<close> is left, and the
  session starts on webcam 12. (For an ASCII suffix from which deleting the scheme
  leaves nothing or a non-integer, the index is 0: lemma \<open>webcam_fallback_index\<close>.)
\<close>

theorem webcam_embedded_scheme:
  "py_int ''1webcam://2'' = None
   \<and> fst (start_detection good_start embedded_settings init_detector)
       = Inr (True, ''Detection started successfully'')
   \<and> stream_url (snd (start_detection good_start embedded_settings init_detector))
       = Some (Webcam 12)"
  by (simp add: py_int_embedded start_detection_def embedded_settings_def demo_settings_def good_start_def
      init_detector_def get_or_def heartbeat_def resolve_stream_embedded Let_def)

lemma remove_all_prefix:
  assumes "pat \<noteq> []"
  shows "remove_all pat (pat @ s) = remove_all pat s"
proof (cases "pat @ s")
  case Nil
  then show ?thesis using assms by simp
next
  case (Cons c cs)
  have "startswith (pat @ s) pat" by (simp add: startswith_def)
  then have "remove_all pat (pat @ s) = remove_all pat (drop (length pat) (pat @ s))"
    using assms unfolding Cons by simp
  then show ?thesis by simp
qed

lemma webcam_fallback_index:
  assumes "\<not> is_running d" "ipCameraUrl st = Some (''webcam://'' @ suffix)"
    "remove_all ''webcam://'' suffix = [] \<or> py_int (remove_all ''webcam://'' suffix) = None"
    "ascii_string suffix"
  shows "stream_url (snd (start_detection env st d)) = Some (Webcam 0)"
proof -
  have sw: "startswith (''webcam://'' @ suffix) ''webcam://''"
    by (simp add: startswith_def)
  have "remove_all ''webcam://'' (''webcam://'' @ suffix) = remove_all ''webcam://'' suffix"
    by (rule remove_all_prefix) simp
  then have "resolve_stream (''webcam://'' @ suffix) p = Webcam 0" for p
    using assms(3) sw unfolding resolve_stream_def by (auto simp: Let_def)
  then show ?thesis
    using assms(1,2)
    by (simp add: start_detection_def get_or_def Let_def split: open_outcome.splits)
qed

lemma start_detection_keeps_table:
  "last_notification_time (snd (start_detection env st d)) = last_notification_time d"
  by (simp add: start_detection_def heartbeat_def Let_def split: open_outcome.splits)

lemma stop_detection_keeps_table:
  "last_notification_time (snd (stop_detection d)) = last_notification_time d"
  by (simp add: stop_detection_def)

lemma api_stop_running:
  assumes "detection_active (api w)" "is_running (det w)"
  shows "snd (api_stop_detection w) =
     w\<lparr> api := (api w)\<lparr>detection_active := False, latest_frame := None, current_settings := None\<rparr>,
         det := (det w)\<lparr>is_running := False, cap := None\<rparr> \<rparr>"
  using assms by (simp add: api_stop_detection_def stop_detection_def)

lemma api_start_keeps_frame_and_table:
  "latest_frame (api (snd (api_start_detection env a st w))) = latest_frame (api w)
   \<and> last_notification_time (det (snd (api_start_detection env a st w)))
       = last_notification_time (det w)"
proof -
  let ?s2 = "(if a then (st\<lparr>enablePersonDetection := Some (get_or (enablePersonDetection st) True)\<rparr>)\<lparr>userId := Some ''user-from-token''\<rparr>
             else st\<lparr>enablePersonDetection := Some (get_or (enablePersonDetection st) True)\<rparr>)"
  obtain r d1 where sd: "start_detection env ?s2 (det w) = (r, d1)"
    by (cases "start_detection env ?s2 (det w)")
  have t: "last_notification_time d1 = last_notification_time (det w)"
    using start_detection_keeps_table[of env ?s2 "det w"] sd by simp
  show ?thesis
    using sd t
    by (cases r) (auto simp: api_start_detection_def Let_def start_monitoring_def
        set_frame_callback_def split: prod.splits bool.splits)
qed

lemma api_start_good:
  assumes "\<not> detection_active (api w)" "\<not> is_running (det w)" "truthy (ipCameraUrl st)"
    "model_loaded (det w) \<or> load_ok env" "video_open env = Opened" "thread_ok env"
  shows "detection_active (api (snd (api_start_detection env a st w)))
     \<and> is_running (det (snd (api_start_detection env a st w)))"
  using assms
  by (auto simp: api_start_detection_def start_detection_def Let_def heartbeat_def
      set_frame_callback_def start_monitoring_def)

text \<open>
  Claim C1, amended. For a running session (\<open>detection_active\<close> and \<open>is_running\<close>),
  \<open>/stop\<close> followed by \<open>/start\<close> leaves the frame slot empty and the table
  \<open>last_notification_time\<close> exactly as it was before the stop: neither handler, nor
  \<open>stop_detection\<close> or \<open>start_detection\<close>, writes to it. With a camera URL, a model that
  loads, a capture that opens and a worker thread that starts, the session is running
  again.
\<close>

theorem stop_then_start_keeps_cooldowns:
  assumes "detection_active (api w)" "is_running (det w)"
  shows "latest_frame (api (snd (api_start_detection env a st (snd (api_stop_detection w))))) = None
     \<and> last_notification_time (det (snd (api_start_detection env a st (snd (api_stop_detection w)))))
         = last_notification_time (det w)
     \<and> (truthy (ipCameraUrl st) \<and> (model_loaded (det w) \<or> load_ok env)
          \<and> video_open env = Opened \<and> thread_ok env
         \<longrightarrow> detection_active (api (snd (api_start_detection env a st (snd (api_stop_detection w)))))
           \<and> is_running (det (snd (api_start_detection env a st (snd (api_stop_detection w))))))"
proof -
  let ?w1 = "snd (api_stop_detection w)"
  have w1: "?w1 = w\<lparr> api := (api w)\<lparr>detection_active := False, latest_frame := None, current_settings := None\<rparr>,
         det := (det w)\<lparr>is_running := False, cap := None\<rparr> \<rparr>"
    by (rule api_stop_running[OF assms])
  have a: "latest_frame (api ?w1) = None" "last_notification_time (det ?w1) = last_notification_time (det w)"
    "\<not> detection_active (api ?w1)" "\<not> is_running (det ?w1)" "model_loaded (det ?w1) = model_loaded (det w)"
    by (simp_all add: w1)
  show ?thesis
    using api_start_keeps_frame_and_table[of env a st ?w1] api_start_good[of ?w1 st env a] a
    by auto
qed

lemmas world_defs = step_def api_start_detection_def api_stop_detection_def start_detection_def
  stop_detection_def worker_turn_def detection_iteration_def publish_and_process_def
  monitor_detector_def monitor_restart_def init_world_def init_loop_vars_def
  set_frame_callback_def start_monitoring_def clear_latest_frame_def heartbeat_def get_or_def
  capture_open_def read_stuck_def good_frame_def reopen_cap_def release_cap_def
  loop_cleanup_def remove_nth_def resolve_stream_def startswith_def
  max_consecutive_errors_def max_reconnect_attempts_def settings_truthy_def
  get_last_heartbeat_age_def is_heartbeat_active_def

lemma py_int_0: "py_int ''0'' = Some 0"
  by (simp add: py_int_def py_strip_def py_isspace_def digit_value_def)

lemma resolve_webcam0: "resolve_stream ''webcam://0'' [] = Webcam 0"
  by (simp add: resolve_stream_def startswith_def py_int_0)

lemma started_world_run:
  "run_events demo_config [StartRequest good_start False demo_settings] init_world = started_world"
  by (simp add: step_def api_start_detection_def start_detection_def demo_settings_def
      good_start_def init_world_def truthy_def get_or_def heartbeat_def resolve_webcam0
      init_detector_def started_world_def started_detector_def set_frame_callback_def
      start_monitoring_def Let_def)

lemma alerted_run:
  "run_events demo_config session_with_alert init_world =
     started_world\<lparr> api := (api started_world)\<lparr>latest_frame := Some (Frame 1, [car_detection])\<rparr>,
       det := started_detector\<lparr>last_callback_time := Some 1002000,
                last_notification_time := [''car'' \<mapsto> 1002]\<rparr>,
       workers := [\<lparr>last_detection_time = 1002, consecutive_errors = 0, reconnect_attempts = 0\<rparr>] \<rparr>"
proof -
  have "run_events demo_config session_with_alert init_world
      = step demo_config (WorkerTurn 0 car_frame) started_world"
    using started_world_run by (simp add: session_with_alert_def)
  also have "\<dots> = started_world\<lparr> api := (api started_world)\<lparr>latest_frame := Some (Frame 1, [car_detection])\<rparr>,
       det := started_detector\<lparr>last_callback_time := Some 1002000,
                last_notification_time := [''car'' \<mapsto> 1002]\<rparr>,
       workers := [\<lparr>last_detection_time = 1002, consecutive_errors = 0, reconnect_attempts = 0\<rparr>] \<rparr>"
    by (simp add: step_def worker_turn_def detection_iteration_def publish_and_process_def
        started_world_def started_detector_def init_loop_vars_def
        car_frame_def demo_config_def capture_open_def read_stuck_def good_frame_def
        car_detection_def eval_defs)
  finally show ?thesis .
qed

text \<open>
  Claim C1, as stated, fails on the cooldown table. A session is started, a frame with a
  car is processed at time 1002 (the session is running, with the entry for \<open>car\<close>);
  after \<open>/stop\<close> and a new \<open>/start\<close> with the same settings the session is running again
  and the entry for \<open>car\<close> is still there.
\<close>

theorem cooldowns_survive_restart_counterexample:
  "detection_active (api (run_events demo_config session_with_alert init_world))
   \<and> is_running (det (run_events demo_config session_with_alert init_world))
   \<and> is_running (det (run_events demo_config
         (session_with_alert @ [StopRequest, StartRequest later_start False demo_settings])
         init_world))
   \<and> last_notification_time (det (run_events demo_config
         (session_with_alert @ [StopRequest, StartRequest later_start False demo_settings])
         init_world)) ''car'' = Some 1002"
proof -
  have app: "run_events cfg (xs @ ys) w = run_events cfg ys (run_events cfg xs w)" for cfg xs ys w
    by (induction xs arbitrary: w) simp_all
  show ?thesis
    unfolding app alerted_run
    by (simp add: step_def api_stop_detection_def stop_detection_def api_start_detection_def
        start_detection_def started_world_def started_detector_def init_detector_def
        demo_settings_def later_start_def truthy_def get_or_def heartbeat_def resolve_webcam0
        set_frame_callback_def start_monitoring_def Let_def)
qed

text \<open>
  The session of the counterexample, stopped and started again.
\<close>

theorem stop_then_start_keeps_cooldowns_witness:
  "latest_frame (api (snd (api_start_detection later_start False demo_settings
       (snd (api_stop_detection (run_events demo_config session_with_alert init_world)))))) = None
   \<and> last_notification_time (det (snd (api_start_detection later_start False demo_settings
       (snd (api_stop_detection (run_events demo_config session_with_alert init_world))))))
       = [''car'' \<mapsto> 1002]
   \<and> detection_active (api (snd (api_start_detection later_start False demo_settings
       (snd (api_stop_detection (run_events demo_config session_with_alert init_world))))))
   \<and> is_running (det (snd (api_start_detection later_start False demo_settings
       (snd (api_stop_detection (run_events demo_config session_with_alert init_world))))))"
  using stop_then_start_keeps_cooldowns[where w = "run_events demo_config session_with_alert init_world"
      and st = demo_settings and env = later_start and a = False]
  unfolding alerted_run
  by (simp add: started_world_def started_detector_def init_detector_def demo_settings_def
      later_start_def truthy_def)

section \<open>The heartbeat monitor\<close>

lemma start_detection_keeps_interval:
  "heartbeat_interval (snd (start_detection env st d)) = heartbeat_interval d"
  by (simp add: start_detection_def heartbeat_def Let_def split: open_outcome.splits)

lemma monitor_restart_events:
  "take 2 (snd (monitor_restart env st w)) = [StopCalled, StartCalled st]
   \<and> StopCalled \<in> set (snd (monitor_restart env st w))
   \<and> \<not> warned (snd (monitor_restart env st w))"
  by (auto simp: monitor_restart_def warned_def split: prod.splits sum.splits bool.splits)

lemma warned_append: "warned (xs @ ys) = (warned xs \<or> warned ys)"
  by (auto simp: warned_def)

lemma warned_single: "warned [HeartbeatWarning x]" "\<not> warned []"
  by (simp_all add: warned_def)

lemma monitor_restart_interval:
  "heartbeat_interval (det (fst (monitor_restart env st w))) = heartbeat_interval (det w)"
proof -
  obtain r0 d1 where s: "stop_detection (det w) = (r0, d1)" by (cases "stop_detection (det w)")
  have i1: "heartbeat_interval d1 = heartbeat_interval (det w)"
    using s by (auto simp: stop_detection_def split: if_splits)
  obtain r d2 where t: "start_detection env st d1 = (r, d2)" by (cases "start_detection env st d1")
  have i2: "heartbeat_interval d2 = heartbeat_interval d1"
    using start_detection_keeps_interval[of env st d1] t by simp
  show ?thesis
    using s t i1 i2
    by (auto simp: monitor_restart_def set_frame_callback_def split: sum.splits bool.splits prod.splits)
qed

text \<open>
  Claim C4, as stated, fails on the restart. The session is marked active and the detector
  is running; the heartbeat is 100 seconds old when the monitor's pass begins (20 times
  the interval of 5), and 20 seconds old again when the pass reads the age (the pass
  re-stamps it first). \<open>is_heartbeat_active\<close> is false at both moments, yet the pass only
  warns: it calls neither \<open>stop_detection\<close> nor \<open>start_detection\<close>.
\<close>

theorem stale_heartbeat_no_restart_counterexample:
  "detection_active (api started_world)
   \<and> \<not> is_heartbeat_active 1100 (det started_world)
   \<and> \<not> is_heartbeat_active 1120 (det (fst (monitor_detector stale_monitor_env started_world)))
   \<and> snd (monitor_detector stale_monitor_env started_world) = [HeartbeatWarning 20]
   \<and> \<not> restart_performed (snd (monitor_detector stale_monitor_env started_world))"
  by (simp add: monitor_detector_def started_world_def started_detector_def init_detector_def
      stale_monitor_env_def heartbeat_def get_last_heartbeat_age_def is_heartbeat_active_def
      restart_performed_def Let_def)

text \<open>
  Claim C4, amended. While the session is marked active, a pass of the monitor performs
  the stop-then-start cycle, with the saved settings, exactly when the detector's
  \<open>is_running\<close> flag is false and settings are saved; the heartbeat age plays no part in
  it (the threshold of three intervals is only what \<open>is_heartbeat_active\<close> reports, and
  the monitor does not call it). The pass warns exactly when the age it reads, after its
  own re-stamp and any restart, exceeds twice the interval.
\<close>

theorem monitor_restarts_on_stopped_detector:
  assumes "detection_active (api w)"
  shows "restart_performed (snd (monitor_detector env w))
           = (\<not> is_running (det w) \<and> settings_truthy (current_settings (api w)))
     \<and> (\<not> is_running (det w) \<and> settings_truthy (current_settings (api w))
           \<longrightarrow> take 2 (snd (monitor_detector env w))
                 = [StopCalled, StartCalled (the (current_settings (api w)))])
     \<and> warned (snd (monitor_detector env w))
           = (age_time env - last_heartbeat (det (fst (monitor_detector env w)))
                > heartbeat_interval (det w) * 2)"
proof (cases "\<not> is_running (det w) \<and> settings_truthy (current_settings (api w))")
  case True
  then obtain st where st: "current_settings (api w) = Some st"
    by (auto simp: settings_truthy_def split: option.splits)
  let ?w1 = "w\<lparr>det := heartbeat (beat_time env) (det w)\<rparr>"
  let ?r = "monitor_restart (restart_env env) st ?w1"
  have run: "is_running (heartbeat (beat_time env) (det w)) = is_running (det w)"
    by (simp add: heartbeat_def)
  have md: "monitor_detector env w =
      (fst ?r, snd ?r @ (if get_last_heartbeat_age (age_time env) (det (fst ?r))
                              > heartbeat_interval (det (fst ?r)) * 2
                         then [HeartbeatWarning (get_last_heartbeat_age (age_time env) (det (fst ?r)))]
                         else []))"
    using assms True st run
    by (simp add: monitor_detector_def Let_def split: prod.splits)
  have iv: "heartbeat_interval (det (fst ?r)) = heartbeat_interval (det w)"
    using monitor_restart_interval[of "restart_env env" st ?w1] by (simp add: heartbeat_def)
  have ev: "take 2 (snd ?r) = [StopCalled, StartCalled st]" "StopCalled \<in> set (snd ?r)"
    "\<not> warned (snd ?r)"
    using monitor_restart_events[of "restart_env env" st ?w1] by blast+
  have len: "2 \<le> length (snd ?r)"
    using ev(1) by (metis length_take min.cobounded1 length_Cons list.size(3) One_nat_def Suc_1)
  have w: "warned (snd (monitor_detector env w))
      = (get_last_heartbeat_age (age_time env) (det (fst ?r)) > heartbeat_interval (det w) * 2)"
    using ev(3) by (simp add: md iv warned_append warned_single)
  show ?thesis
    using True st ev len w
    by (simp add: md restart_performed_def get_last_heartbeat_age_def)
next
  case False
  let ?w1 = "w\<lparr>det := heartbeat (beat_time env) (det w)\<rparr>"
  have run: "is_running (heartbeat (beat_time env) (det w)) = is_running (det w)"
    by (simp add: heartbeat_def)
  have md: "monitor_detector env w =
      (?w1, (if get_last_heartbeat_age (age_time env) (det ?w1) > heartbeat_interval (det ?w1) * 2
             then [HeartbeatWarning (get_last_heartbeat_age (age_time env) (det ?w1))] else []))"
    using assms False run
    by (auto simp: monitor_detector_def Let_def)
  show ?thesis
    using False
    by (auto simp: md restart_performed_def warned_single get_last_heartbeat_age_def heartbeat_def)
qed

text \<open>
  A pass over a running session with a stale heartbeat (a warning, no restart), and a
  pass over a session marked active whose detector is not running (a restart with the
  saved settings, no warning).
\<close>

theorem monitor_restarts_on_stopped_detector_witness:
  "\<not> restart_performed (snd (monitor_detector stale_monitor_env started_world))
   \<and> warned (snd (monitor_detector stale_monitor_env started_world))
   \<and> restart_performed (snd (monitor_detector closed_camera_env diverged_world))
   \<and> take 2 (snd (monitor_detector closed_camera_env diverged_world))
       = [StopCalled, StartCalled demo_settings]
   \<and> \<not> warned (snd (monitor_detector closed_camera_env diverged_world))"
proof -
  have a: "detection_active (api started_world)" "is_running (det started_world)"
    "heartbeat_interval (det started_world) = 5"
    by (simp_all add: started_world_def started_detector_def init_detector_def)
  have b: "detection_active (api diverged_world)" "\<not> is_running (det diverged_world)"
    "settings_truthy (current_settings (api diverged_world))"
    "current_settings (api diverged_world) = Some demo_settings"
    "heartbeat_interval (det diverged_world) = 5"
    by (simp_all add: diverged_world_def started_world_def started_detector_def init_detector_def
        settings_truthy_def demo_settings_def)
  have c: "last_heartbeat (det (fst (monitor_detector stale_monitor_env started_world))) = 1100"
    by (simp add: monitor_detector_def started_world_def started_detector_def init_detector_def
        stale_monitor_env_def heartbeat_def Let_def)
  have d: "last_heartbeat (det (fst (monitor_detector closed_camera_env diverged_world))) = 1102"
    by (simp add: monitor_detector_def monitor_restart_def stop_detection_def start_detection_def
        diverged_world_def started_world_def started_detector_def init_detector_def
        closed_camera_env_def heartbeat_def settings_truthy_def demo_settings_def
        clear_latest_frame_def get_or_def Let_def)
  show ?thesis
    using monitor_restarts_on_stopped_detector[OF a(1), of stale_monitor_env]
      monitor_restarts_on_stopped_detector[OF b(1), of closed_camera_env]
      a b c d
    by (simp add: stale_monitor_env_def closed_camera_env_def)
qed

lemma stop_detection_idle:
  "\<not> is_running d \<Longrightarrow> stop_detection d = ((False, ''Detection is not running''), d)"
  by (simp add: stop_detection_def)

text \<open>
  Claim C5. In a pass of the monitor over a session marked active whose detector is not
  running, with saved settings: if \<open>start_detection\<close> with the saved settings does not
  succeed (it returns a failure, or an exception escapes it), then after the pass the
  session is no longer marked active (\<open>detection_active\<close> is false, which is how the
  module state shows a failed session) and the frame slot is empty.
\<close>

theorem failed_restart_marks_inactive:
  assumes "detection_active (api w)" "\<not> is_running (det w)"
    "current_settings (api w) = Some st" "settings_truthy (Some st)"
    "\<not> start_succeeded
         (fst (start_detection (restart_env env) st (heartbeat (beat_time env) (det w))))"
  shows "\<not> detection_active (api (fst (monitor_detector env w)))
     \<and> latest_frame (api (fst (monitor_detector env w))) = None
     \<and> RestartFailed \<in> set (snd (monitor_detector env w))"
proof -
  let ?d1 = "heartbeat (beat_time env) (det w)"
  let ?w1 = "w\<lparr>det := ?d1\<rparr>"
  have idle: "\<not> is_running ?d1" using assms(2) by (simp add: heartbeat_def)
  obtain r d2 where sd: "start_detection (restart_env env) st ?d1 = (r, d2)"
    by (cases "start_detection (restart_env env) st ?d1")
  have bad: "\<not> start_succeeded r" using assms(5) sd by simp
  have mr: "monitor_restart (restart_env env) st ?w1 =
      (?w1\<lparr>api := clear_latest_frame ((api ?w1)\<lparr>detection_active := False\<rparr>), det := d2\<rparr>,
       [StopCalled, StartCalled st, RestartFailed])"
    using bad sd stop_detection_idle[OF idle]
    by (cases r) (auto simp: monitor_restart_def start_succeeded_def split: bool.splits)
  have md: "fst (monitor_detector env w) = fst (monitor_restart (restart_env env) st ?w1)"
    "set (snd (monitor_restart (restart_env env) st ?w1)) \<subseteq> set (snd (monitor_detector env w))"
    using assms(1,3,4) idle
    by (auto simp: monitor_detector_def Let_def split: prod.splits)
  show ?thesis
    using md unfolding mr by (auto simp: clear_latest_frame_def)
qed

text \<open>
  A restart whose capture does not open (an error is returned) and one whose worker
  thread cannot be started (an exception), both clearing a filled frame slot.
\<close>

theorem failed_restart_marks_inactive_witness:
  "fst (start_detection (restart_env closed_camera_env) demo_settings
          (heartbeat (beat_time closed_camera_env) (det diverged_world)))
      = Inr (False, ''Failed to open video stream'')
   \<and> fst (start_detection (restart_env no_thread_env) demo_settings
          (heartbeat (beat_time no_thread_env) (det diverged_world)))
      = Inl RuntimeError
   \<and> latest_frame (api diverged_world) = Some (Frame 1, [])
   \<and> \<not> detection_active (api (fst (monitor_detector closed_camera_env diverged_world)))
   \<and> latest_frame (api (fst (monitor_detector closed_camera_env diverged_world))) = None
   \<and> \<not> detection_active (api (fst (monitor_detector no_thread_env diverged_world)))
   \<and> latest_frame (api (fst (monitor_detector no_thread_env diverged_world))) = None"
proof -
  have b: "detection_active (api diverged_world)" "\<not> is_running (det diverged_world)"
    "current_settings (api diverged_world) = Some demo_settings"
    "settings_truthy (Some demo_settings)"
    "latest_frame (api diverged_world) = Some (Frame 1, [])"
    by (simp_all add: diverged_world_def started_world_def started_detector_def init_detector_def
        settings_truthy_def demo_settings_def)
  have r1: "fst (start_detection (restart_env closed_camera_env) demo_settings
          (heartbeat (beat_time closed_camera_env) (det diverged_world)))
      = Inr (False, ''Failed to open video stream'')"
    by (simp add: start_detection_def heartbeat_def diverged_world_def started_detector_def
        init_detector_def closed_camera_env_def demo_settings_def get_or_def Let_def)
  have r2: "fst (start_detection (restart_env no_thread_env) demo_settings
          (heartbeat (beat_time no_thread_env) (det diverged_world)))
      = Inl RuntimeError"
    by (simp add: start_detection_def heartbeat_def diverged_world_def started_detector_def
        init_detector_def no_thread_env_def demo_settings_def get_or_def Let_def)
  have f1: "\<not> start_succeeded (fst (start_detection (restart_env closed_camera_env) demo_settings
          (heartbeat (beat_time closed_camera_env) (det diverged_world))))"
    unfolding r1 by (simp add: start_succeeded_def)
  have f2: "\<not> start_succeeded (fst (start_detection (restart_env no_thread_env) demo_settings
          (heartbeat (beat_time no_thread_env) (det diverged_world))))"
    unfolding r2 by (simp add: start_succeeded_def)
  show ?thesis
    using failed_restart_marks_inactive[OF b(1) b(2) b(3) b(4) f1]
      failed_restart_marks_inactive[OF b(1) b(2) b(3) b(4) f2] r1 r2 b(5)
    by simp
qed

section \<open>The read loop of the capture watchdog\<close>

lemma detection_iterations_Cons:
  "is_running d \<Longrightarrow> detection_iteration cfg e (d, lv, slot) = (s1, Continue, evs) \<Longrightarrow>
   detection_iterations cfg (e # es) (d, lv, slot) =
     (fst (detection_iterations cfg es s1), evs @ fst (snd (detection_iterations cfg es s1)),
      snd (snd (detection_iterations cfg es s1)))"
  by (simp split: prod.splits)

lemma failed_read_iteration:
  assumes "capture_open d" "read_fails cfg (last_detection_time lv) e"
  shows "detection_iteration cfg e (d, lv, slot) =
     (if consecutive_errors lv + 1 \<ge> max_consecutive_errors
      then ((reopen_cap Opened d, lv\<lparr>consecutive_errors := 0\<rparr>, slot), Continue, [ForcedReconnect])
      else ((d, lv\<lparr>consecutive_errors := consecutive_errors lv + 1\<rparr>, slot), Continue, []))"
  using assms by (simp add: detection_iteration_def read_fails_def)

lemma reopen_cap_Opened [simp]:
  "capture_open (reopen_cap Opened d)" "is_running (reopen_cap Opened d) = is_running d"
  "reopen_cap Opened (reopen_cap Opened d) = reopen_cap Opened d"
  by (simp_all add: reopen_cap_def capture_open_def)

lemma failing_run:
  assumes "is_running d" "capture_open d" "consecutive_errors lv < max_consecutive_errors"
    "\<forall>e \<in> set es. read_fails cfg (last_detection_time lv) e"
  shows "detection_iterations cfg (es @ rest) (d, lv, slot) =
     (let k = (consecutive_errors lv + length es) div max_consecutive_errors;
          r = detection_iterations cfg rest
                ((if k > 0 then reopen_cap Opened d else d),
                 lv\<lparr>consecutive_errors := (consecutive_errors lv + length es) mod max_consecutive_errors\<rparr>,
                 slot)
      in (fst r, replicate k ForcedReconnect @ fst (snd r), snd (snd r)))"
  using assms
proof (induction es arbitrary: d lv)
  case Nil
  then show ?case by (simp add: Let_def)
next
  case (Cons e es)
  have rf: "read_fails cfg (last_detection_time lv) e" using Cons.prems(4) by simp
  show ?case
  proof (cases "consecutive_errors lv + 1 \<ge> max_consecutive_errors")
    case True
    then have c9: "consecutive_errors lv = 9"
      using Cons.prems(3) by (simp add: max_consecutive_errors_def)
    let ?d1 = "reopen_cap Opened d"
    let ?lv1 = "lv\<lparr>consecutive_errors := 0\<rparr>"
    have it: "detection_iteration cfg e (d, lv, slot) = ((?d1, ?lv1, slot), Continue, [ForcedReconnect])"
      using failed_read_iteration[OF Cons.prems(2) rf] True by simp
    have ih: "detection_iterations cfg (es @ rest) (?d1, ?lv1, slot) =
       (let k = (consecutive_errors ?lv1 + length es) div max_consecutive_errors;
            r = detection_iterations cfg rest
                ((if k > 0 then reopen_cap Opened ?d1 else ?d1),
                 ?lv1\<lparr>consecutive_errors := (consecutive_errors ?lv1 + length es) mod max_consecutive_errors\<rparr>,
                 slot)
        in (fst r, replicate k ForcedReconnect @ fst (snd r), snd (snd r)))"
      by (rule Cons.IH) (use Cons.prems in \<open>simp_all add: max_consecutive_errors_def\<close>)
    have k: "(consecutive_errors lv + length (e # es)) div max_consecutive_errors
        = Suc (length es div max_consecutive_errors)"
      "(consecutive_errors lv + length (e # es)) mod max_consecutive_errors
        = length es mod max_consecutive_errors"
      using c9 by (simp_all add: max_consecutive_errors_def)
    show ?thesis
      using detection_iterations_Cons[OF Cons.prems(1) it, of "es @ rest"]
      unfolding k ih
      by (simp add: Let_def)
  next
    case False
    let ?lv1 = "lv\<lparr>consecutive_errors := consecutive_errors lv + 1\<rparr>"
    have it: "detection_iteration cfg e (d, lv, slot) = ((d, ?lv1, slot), Continue, [])"
      using failed_read_iteration[OF Cons.prems(2) rf] False by simp
    have ih: "detection_iterations cfg (es @ rest) (d, ?lv1, slot) =
       (let k = (consecutive_errors ?lv1 + length es) div max_consecutive_errors;
            r = detection_iterations cfg rest
                ((if k > 0 then reopen_cap Opened d else d),
                 ?lv1\<lparr>consecutive_errors := (consecutive_errors ?lv1 + length es) mod max_consecutive_errors\<rparr>,
                 slot)
        in (fst r, replicate k ForcedReconnect @ fst (snd r), snd (snd r)))"
      by (rule Cons.IH) (use Cons.prems False in \<open>simp_all\<close>)
    show ?thesis
      using detection_iterations_Cons[OF Cons.prems(1) it, of "es @ rest"]
      unfolding ih
      by (simp add: Let_def)
  qed
qed

lemma publish_no_reconnect:
  "reconnects (snd (publish_and_process e fr dets (d, slot))) = 0
   \<and> forced_reconnects (snd (publish_and_process e fr dets (d, slot))) = 0"
  by (auto simp: publish_and_process_def reconnects_def forced_reconnects_def Let_def
      filter_empty_conv split: prod.splits)

lemma good_read_iteration:
  assumes "capture_open d" "read_succeeds cfg (last_detection_time lv) e"
  shows "\<exists>d1 slot1 evs. detection_iteration cfg e (d, lv, slot) =
           ((d1, lv\<lparr>consecutive_errors := 0, last_detection_time := current_time e\<rparr>, slot1),
            Continue, evs)
         \<and> reconnects evs = 0 \<and> forced_reconnects evs = 0"
proof -
  obtain fr where fr: "good_frame (frame_read e) = Some fr"
    using assms(2) by (auto simp: read_succeeds_def)
  show ?thesis
  proof (cases "inference e")
    case InferRaised
    then show ?thesis
      using assms fr
      by (simp add: detection_iteration_def read_succeeds_def reconnects_def forced_reconnects_def)
  next
    case (Inferred dets)
    obtain d1 slot1 evs where pp: "publish_and_process e fr dets (d, slot) = ((d1, slot1), evs)"
      by (metis surj_pair)
    have "reconnects evs = 0 \<and> forced_reconnects evs = 0"
      using publish_no_reconnect[of e fr dets d slot] pp by simp
    then show ?thesis
      using assms fr Inferred pp
      by (simp add: detection_iteration_def read_succeeds_def)
  qed
qed

lemma counts_append:
  "reconnects (xs @ ys) = reconnects xs + reconnects ys"
  "forced_reconnects (xs @ ys) = forced_reconnects xs + forced_reconnects ys"
  "reconnects (replicate k ForcedReconnect) = k"
  "forced_reconnects (replicate k ForcedReconnect) = k"
  "reconnects [] = 0" "forced_reconnects [] = 0"
  by (simp_all add: reconnects_def forced_reconnects_def)

text \<open>
  Claim C6, amended. From a running detector with an open capture and an error counter of
  zero, let \<open>N\<close> iterations in a row reach the read and get no frame (each capture
  reopened on the way opens). Then the loop forces \<open>N div 10\<close> reconnects, these are all
  the reconnects, and the counter ends at \<open>N mod 10\<close>: the counter is reset at every
  forced reconnect, so exactly one reconnect is forced only for \<open>10 \<le> N < 20\<close>. If
  \<open>N < 10\<close> and the next read succeeds, no reconnect of any kind has happened and the
  counter is back at zero.
\<close>

theorem consecutive_read_failures:
  assumes "is_running d" "capture_open d" "consecutive_errors lv = 0"
    "\<forall>e \<in> set es. read_fails cfg (last_detection_time lv) e"
  shows "forced_reconnects (loop_events (detection_iterations cfg es (d, lv, slot)))
           = length es div max_consecutive_errors
     \<and> reconnects (loop_events (detection_iterations cfg es (d, lv, slot)))
           = length es div max_consecutive_errors
     \<and> consecutive_errors (final_vars (detection_iterations cfg es (d, lv, slot)))
           = length es mod max_consecutive_errors
     \<and> ((forced_reconnects (loop_events (detection_iterations cfg es (d, lv, slot))) = 1)
           = (max_consecutive_errors \<le> length es \<and> length es < 2 * max_consecutive_errors))
     \<and> (length es < max_consecutive_errors \<and> read_succeeds cfg (last_detection_time lv) ok
          \<longrightarrow> reconnects (loop_events (detection_iterations cfg (es @ [ok]) (d, lv, slot))) = 0
            \<and> consecutive_errors (final_vars (detection_iterations cfg (es @ [ok]) (d, lv, slot))) = 0)"
proof -
  have lt: "consecutive_errors lv < max_consecutive_errors"
    using assms(3) by (simp add: max_consecutive_errors_def)
  have run: "detection_iterations cfg (es @ rest) (d, lv, slot) =
     (let k = length es div max_consecutive_errors;
          r = detection_iterations cfg rest
                ((if k > 0 then reopen_cap Opened d else d),
                 lv\<lparr>consecutive_errors := length es mod max_consecutive_errors\<rparr>, slot)
      in (fst r, replicate k ForcedReconnect @ fst (snd r), snd (snd r)))" for rest
    using failing_run[OF assms(1,2) lt assms(4), of rest slot] assms(3) by simp
  have plain: "loop_events (detection_iterations cfg es (d, lv, slot))
        = replicate (length es div max_consecutive_errors) ForcedReconnect"
    "final_vars (detection_iterations cfg es (d, lv, slot))
        = lv\<lparr>consecutive_errors := length es mod max_consecutive_errors\<rparr>"
    using run[of "[]"] by (simp_all add: loop_events_def final_vars_def Let_def)
  have one: "(length es div max_consecutive_errors = 1)
      = (max_consecutive_errors \<le> length es \<and> length es < 2 * max_consecutive_errors)"
    by (auto simp: max_consecutive_errors_def)
  have recover: "reconnects (loop_events (detection_iterations cfg (es @ [ok]) (d, lv, slot))) = 0
      \<and> consecutive_errors (final_vars (detection_iterations cfg (es @ [ok]) (d, lv, slot))) = 0"
    if few: "length es < max_consecutive_errors"
      and ok: "read_succeeds cfg (last_detection_time lv) ok"
  proof -
    let ?lv1 = "lv\<lparr>consecutive_errors := length es\<rparr>"
    have r1: "detection_iterations cfg (es @ [ok]) (d, lv, slot) =
        detection_iterations cfg [ok] (d, ?lv1, slot)"
      using run[of "[ok]"] few by (simp add: Let_def)
    obtain d1 slot1 evs where it: "detection_iteration cfg ok (d, ?lv1, slot) =
           ((d1, ?lv1\<lparr>consecutive_errors := 0, last_detection_time := current_time ok\<rparr>, slot1),
            Continue, evs)" and none: "reconnects evs = 0"
      using good_read_iteration[OF assms(2), of cfg ?lv1 ok slot] ok by auto
    show ?thesis
      unfolding r1 detection_iterations_Cons[OF assms(1) it]
      using none by (simp add: loop_events_def final_vars_def)
  qed
  show ?thesis
    using plain one recover by (simp add: counts_append)
qed

lemma dead_read_fails: "read_fails demo_config (last_detection_time init_loop_vars) dead_read"
  by (simp add: read_fails_def demo_config_def init_loop_vars_def dead_read_def read_stuck_def
      good_frame_def)

lemma started_detector_ready: "is_running started_detector" "capture_open started_detector"
  "consecutive_errors init_loop_vars < max_consecutive_errors"
  "consecutive_errors init_loop_vars = 0"
  by (simp_all add: started_detector_def init_detector_def capture_open_def init_loop_vars_def
      max_consecutive_errors_def)

text \<open>
  Claim C6, as stated, fails for long runs of failures: twenty failing reads in a row are
  at least \<open>max_consecutive_errors\<close>, and they force two reconnects, not one.
\<close>

theorem twenty_failures_two_reconnects_counterexample:
  "max_consecutive_errors \<le> length (replicate 20 dead_read)
   \<and> forced_reconnects (loop_events
        (detection_iterations demo_config (replicate 20 dead_read)
           (started_detector, init_loop_vars, None))) = 2"
proof -
  have all: "\<forall>e \<in> set (replicate 20 dead_read).
      read_fails demo_config (last_detection_time init_loop_vars) e"
    using dead_read_fails by simp
  have "detection_iterations demo_config (replicate 20 dead_read @ [])
          (started_detector, init_loop_vars, None) =
     (let k = (consecutive_errors init_loop_vars + length (replicate 20 dead_read))
                 div max_consecutive_errors;
          r = detection_iterations demo_config []
                ((if k > 0 then reopen_cap Opened started_detector else started_detector),
                 init_loop_vars\<lparr>consecutive_errors :=
                    (consecutive_errors init_loop_vars + length (replicate 20 dead_read))
                      mod max_consecutive_errors\<rparr>,
                 None)
      in (fst r, replicate k ForcedReconnect @ fst (snd r), snd (snd r)))"
    by (rule failing_run[OF started_detector_ready(1,2,3) all])
  then show ?thesis
    by (simp add: Let_def loop_events_def counts_append max_consecutive_errors_def
        init_loop_vars_def)
qed

text \<open>
  Three failures and a good frame; three, ten and twenty-five failures.
\<close>

theorem consecutive_read_failures_witness:
  "reconnects (loop_events (detection_iterations demo_config (replicate 3 dead_read @ [car_frame])
       (started_detector, init_loop_vars, None))) = 0
   \<and> consecutive_errors (final_vars (detection_iterations demo_config
       (replicate 3 dead_read @ [car_frame]) (started_detector, init_loop_vars, None))) = 0
   \<and> consecutive_errors (final_vars (detection_iterations demo_config (replicate 3 dead_read)
       (started_detector, init_loop_vars, None))) = 3
   \<and> forced_reconnects (loop_events (detection_iterations demo_config (replicate 10 dead_read)
       (started_detector, init_loop_vars, None))) = 1
   \<and> forced_reconnects (loop_events (detection_iterations demo_config (replicate 25 dead_read)
       (started_detector, init_loop_vars, None))) = 2"
proof -
  have all: "\<forall>e \<in> set (replicate n dead_read).
      read_fails demo_config (last_detection_time init_loop_vars) e" for n
    using dead_read_fails by simp
  have ok: "read_succeeds demo_config (last_detection_time init_loop_vars) car_frame"
    by (simp add: read_succeeds_def demo_config_def init_loop_vars_def car_frame_def
        read_stuck_def good_frame_def)
  show ?thesis
    using consecutive_read_failures[OF started_detector_ready(1,2,4) all[of 3],
        where slot = None and ok = car_frame]
      consecutive_read_failures[OF started_detector_ready(1,2,4) all[of 10],
        where slot = None and ok = car_frame]
      consecutive_read_failures[OF started_detector_ready(1,2,4) all[of 25],
        where slot = None and ok = car_frame]
      ok
    by (simp add: max_consecutive_errors_def)
qed

section \<open>The capture handle over the life of the process\<close>







lemma publish_detector:
  "fst (fst (publish_and_process e fr dets (d, slot))) =
     (let d1 = (if frame_callback d
                   \<and> (case last_callback_time d of None \<Rightarrow> True | Some t \<Rightarrow> current_ms e - t \<ge> 33)
                then d\<lparr>last_callback_time := Some (current_ms e)\<rparr> else d)
      in if dets = [] then d1 else fst (process_detections (process_time e) dets d1))"
  by (simp add: publish_and_process_def Let_def split: prod.splits)


lemma publish_cap:
  "cap (fst (fst (publish_and_process e fr dets (d, slot)))) = cap d"
proof -
  have "cap (fst (process_detections t xs d')) = cap d'" for t xs d'
  proof -
    obtain m where "fst (process_detections t xs d') = d'\<lparr>last_notification_time := m\<rparr>"
      using process_detections_keeps by blast
    then show ?thesis by simp
  qed
  then show ?thesis
    unfolding publish_detector Let_def by simp
qed






















end
